theory Spec2Isabelle
  imports Main "HOL-Library.Sublist"
begin

section \<open>Python values, exceptions and observable events\<close>

text \<open>
  The two scripts (\<^verbatim>\<open>create_resources.py\<close> and
  \<^verbatim>\<open>storage-simulator/create_resources.py\<close>) are straight-line sequences of SDK calls
  and prints inside \<^verbatim>\<open>try\<close>/\<^verbatim>\<open>except Exception\<close> blocks.

  An exception carries whether its class derives from \<^verbatim>\<open>Exception\<close> (what
  \<^verbatim>\<open>except Exception\<close> tests) and its text \<^verbatim>\<open>str(e)\<close>. Exceptions that derive from
  \<^verbatim>\<open>BaseException\<close> only (\<^verbatim>\<open>KeyboardInterrupt\<close>, \<^verbatim>\<open>SystemExit\<close>) pass through
  every handler of the scripts.
\<close>

datatype pyexn = PyExn (is_Exception: bool) (exn_str: string)

record s3_config =
  endpoint_url :: string
  aws_access_key_id :: string
  aws_secret_access_key :: string
  region_name :: string
  addressing_style :: "string option"

datatype sdk_call =
    Boto3_client s3_config
  | List_buckets
  | Create_bucket string
  | Put_object string string string
  | From_connection_string string
  | Get_container_client string
  | Create_container

text \<open>
  What a run does to the outside, in order: a line written to standard output, or an SDK
  call together with the exception it raised (\<open>None\<close> when it returned).
\<close>

datatype event = Printed string | Called sdk_call "pyexn option"

text \<open>
  The SDKs and the emulators behind them are not part of the repository: they are
  parameters. Each operation takes the state of the outside world and returns either an
  exception or a value, and the new state. \<open>'c\<close>, \<open>'s\<close> and \<open>'k\<close> are the client handles.
  \<open>list_buckets\<close> returns the response dictionary, each value by its \<^verbatim>\<open>str()\<close>.
\<close>

record ('c, 'w) s3_sdk =
  boto3_client :: "s3_config \<Rightarrow> 'w \<Rightarrow> (pyexn + 'c) \<times> 'w"
  list_buckets :: "'c \<Rightarrow> 'w \<Rightarrow> (pyexn + (string \<times> string) list) \<times> 'w"
  create_bucket :: "'c \<Rightarrow> string \<Rightarrow> 'w \<Rightarrow> (pyexn + unit) \<times> 'w"
  put_object :: "'c \<Rightarrow> string \<Rightarrow> string \<Rightarrow> string \<Rightarrow> 'w \<Rightarrow> (pyexn + unit) \<times> 'w"

record ('s, 'k, 'w) blob_sdk =
  from_connection_string :: "string \<Rightarrow> 'w \<Rightarrow> (pyexn + 's) \<times> 'w"
  get_container_client :: "'s \<Rightarrow> string \<Rightarrow> 'w \<Rightarrow> (pyexn + 'k) \<times> 'w"
  create_container :: "'k \<Rightarrow> 'w \<Rightarrow> (pyexn + unit) \<times> 'w"

section \<open>Statements: result, events emitted, new world\<close>

type_synonym ('a, 'w) prog = "'w \<Rightarrow> (pyexn + 'a) \<times> event list \<times> 'w"

definition result :: "(pyexn + 'a) \<times> event list \<times> 'w \<Rightarrow> pyexn + 'a" where
  "result r = fst r"

definition trace :: "(pyexn + 'a) \<times> event list \<times> 'w \<Rightarrow> event list" where
  "trace r = fst (snd r)"

definition world :: "(pyexn + 'a) \<times> event list \<times> 'w \<Rightarrow> 'w" where
  "world r = snd (snd r)"

definition ret :: "'a \<Rightarrow> ('a, 'w) prog" where
  "ret x w = (Inr x, [], w)"

definition py_raise :: "pyexn \<Rightarrow> ('a, 'w) prog" where
  "py_raise e w = (Inl e, [], w)"

definition py_print :: "string \<Rightarrow> (unit, 'w) prog" where
  "py_print line w = (Inr (), [Printed line], w)"

definition call :: "sdk_call \<Rightarrow> ('w \<Rightarrow> (pyexn + 'a) \<times> 'w) \<Rightarrow> ('a, 'w) prog" where
  "call c f w =
     (case f w of
        (Inl e, w') \<Rightarrow> (Inl e, [Called c (Some e)], w')
      | (Inr x, w') \<Rightarrow> (Inr x, [Called c None], w'))"

text \<open>Sequencing: the second statement runs only when the first did not raise.\<close>

definition then_do :: "('a, 'w) prog \<Rightarrow> ('a \<Rightarrow> ('b, 'w) prog) \<Rightarrow> ('b, 'w) prog" where
  "then_do m f w =
     (case m w of
        (Inl e, t, w') \<Rightarrow> (Inl e, t, w')
      | (Inr x, t, w') \<Rightarrow> (case f x w' of (r, t', w'') \<Rightarrow> (r, t @ t', w'')))"

text \<open>
  \<^verbatim>\<open>try: m  except Exception as e: h(e)\<close>. The handler runs for an exception whose class
  derives from \<^verbatim>\<open>Exception\<close>; any other exception leaves the block unhandled.
\<close>

definition try_except :: "('a, 'w) prog \<Rightarrow> (pyexn \<Rightarrow> ('a, 'w) prog) \<Rightarrow> ('a, 'w) prog" where
  "try_except m h w =
     (case m w of
        (Inl e, t, w') \<Rightarrow>
          (if is_Exception e
           then (case h e w' of (r, t', w'') \<Rightarrow> (r, t @ t', w''))
           else (Inl e, t, w'))
      | (Inr x, t, w') \<Rightarrow> (Inr x, t, w'))"

text \<open>\<^verbatim>\<open>needle in hay\<close> on strings.\<close>

primrec in_str :: "string \<Rightarrow> string \<Rightarrow> bool" where
  "in_str needle [] = (needle = [])"
| "in_str needle (c # cs) = (prefix needle (c # cs) \<or> in_str needle cs)"

text \<open>
  \<^verbatim>\<open>d[k]\<close> on a dictionary with string keys: a missing key raises \<^verbatim>\<open>KeyError(k)\<close>, whose
  text is the \<^verbatim>\<open>repr\<close> of the key.
\<close>

definition subscript :: "(string \<times> string) list \<Rightarrow> string \<Rightarrow> (string, 'w) prog" where
  "subscript d k =
     (case map_of d k of
        None \<Rightarrow> py_raise (PyExn True ([CHR 0x27] @ k @ [CHR 0x27]))
      | Some v \<Rightarrow> ret v)"

section \<open>The printed lines\<close>

text \<open>
  Lines are byte strings, the status glyphs in UTF-8: U+2705 (check mark), U+274C (cross
  mark), U+2139 U+FE0F (information sign).
\<close>

definition glyph_ok :: string where
  "glyph_ok = [CHR 0xE2, CHR 0x9C, CHR 0x85]"

definition glyph_err :: string where
  "glyph_err = [CHR 0xE2, CHR 0x9D, CHR 0x8C]"

definition glyph_info :: string where
  "glyph_info = [CHR 0xE2, CHR 0x84, CHR 0xB9, CHR 0xEF, CHR 0xB8, CHR 0x8F]"

definition s3_header :: string where
  "s3_header = ''Creating S3 bucket...''"

definition azure_header :: string where
  "azure_header = ''Creating Azure container...''"

definition s3_created_line :: string where
  "s3_created_line = glyph_ok @ '' S3 Bucket '' @ [CHR 0x27] @ ''test-bucket'' @ [CHR 0x27] @ '' created''"

definition s3_exists_line :: string where
  "s3_exists_line = glyph_info @ '' S3 Bucket already exists''"

definition s3_upload_line :: string where
  "s3_upload_line = glyph_ok @ '' S3 Upload successful via Boto3''"

definition s3_error_line :: "pyexn \<Rightarrow> string" where
  "s3_error_line e = glyph_err @ '' S3 Error: '' @ exn_str e"

definition buckets_line :: "string \<Rightarrow> string" where
  "buckets_line bs = ''Buckets: '' @ bs"

definition azure_created_line :: string where
  "azure_created_line =
     glyph_ok @ '' Azure Container '' @ [CHR 0x27] @ ''test-container'' @ [CHR 0x27] @ '' created''"

definition azure_exists_line :: string where
  "azure_exists_line = glyph_info @ '' Azure Container already exists''"

definition azure_error_line :: "pyexn \<Rightarrow> string" where
  "azure_error_line e = glyph_err @ '' Azure Error: '' @ exn_str e"

definition azure_script_error_line :: "pyexn \<Rightarrow> string" where
  "azure_script_error_line e = glyph_err @ '' Azure Script Error: '' @ exn_str e"

section \<open>create\_resources.py\<close>

text \<open>
  Each function is its body statement by statement: the header print, then the
  \<^verbatim>\<open>try\<close> block with its handler. \<open>main\<close> is the \<^verbatim>\<open>__main__\<close> block.
\<close>

definition s3_cfg :: s3_config where
  "s3_cfg = \<lparr> endpoint_url = ''http://127.0.0.1:8333'', aws_access_key_id = ''admin'',
              aws_secret_access_key = ''password123'', region_name = ''us-east-1'',
              addressing_style = None \<rparr>"

definition connection_string :: string where
  "connection_string =
     ''DefaultEndpointsProtocol=http;AccountName=devstoreaccount1;'' @
     ''AccountKey=Eby8vdM02xNOcqFlqUwJPLlmEtlCDXJ1OUzFT50uSRZ6IFsuFq2UVErCz4I6tq/K1SZFPTOtr/KBHBeksoGMGw==;'' @
     ''BlobEndpoint=http://localhost:10000/devstoreaccount1;''"

definition create_s3_bucket :: "('c, 'w) s3_sdk \<Rightarrow> (unit, 'w) prog" where
  "create_s3_bucket sdk =
     then_do (py_print s3_header) (\<lambda>_.
     try_except
       (then_do (call (Boto3_client s3_cfg) (boto3_client sdk s3_cfg)) (\<lambda>s3.
        then_do (call (Create_bucket ''test-bucket'') (create_bucket sdk s3 ''test-bucket'')) (\<lambda>_.
        py_print s3_created_line)))
       (\<lambda>e. py_print (s3_error_line e)))"

definition create_azure_container :: "('s, 'k, 'w) blob_sdk \<Rightarrow> (unit, 'w) prog" where
  "create_azure_container az =
     then_do (py_print azure_header) (\<lambda>_.
     try_except
       (then_do (call (From_connection_string connection_string)
                   (from_connection_string az connection_string)) (\<lambda>blob_service_client.
        then_do (call (Get_container_client ''test-container'')
                   (get_container_client az blob_service_client ''test-container'')) (\<lambda>container_client.
        try_except
          (then_do (call Create_container (create_container az container_client)) (\<lambda>_.
           py_print azure_created_line))
          (\<lambda>e. if in_str ''ContainerAlreadyExists'' (exn_str e)
                then py_print azure_exists_line
                else py_print (azure_error_line e)))))
       (\<lambda>e. py_print (azure_script_error_line e)))"

definition main :: "('c, 'w) s3_sdk \<Rightarrow> ('s, 'k, 'w) blob_sdk \<Rightarrow> (unit, 'w) prog" where
  "main sdk az = then_do (create_s3_bucket sdk) (\<lambda>_. create_azure_container az)"

section \<open>storage-simulator/create\_resources.py\<close>

text \<open>
  The second script defines functions of the same names; here they carry the prefix
  \<open>sim\<close>. Its \<open>create_s3_bucket\<close> asks for path-style addressing, lists the buckets first,
  tests a creation error for "already exists" and uploads one object; its
  \<open>create_azure_container\<close> is the one of the first script, line for line.
\<close>

definition sim_s3_cfg :: s3_config where
  "sim_s3_cfg = \<lparr> endpoint_url = ''http://localhost:8333'', aws_access_key_id = ''admin'',
                  aws_secret_access_key = ''password123'', region_name = ''us-east-1'',
                  addressing_style = Some ''path'' \<rparr>"

definition sim_create_s3_bucket :: "('c, 'w) s3_sdk \<Rightarrow> (unit, 'w) prog" where
  "sim_create_s3_bucket sdk =
     then_do (py_print s3_header) (\<lambda>_.
     try_except
       (then_do (call (Boto3_client sim_s3_cfg) (boto3_client sdk sim_s3_cfg)) (\<lambda>s3.
        then_do (call List_buckets (list_buckets sdk s3)) (\<lambda>response.
        then_do (subscript response ''Buckets'') (\<lambda>bs.
        then_do (py_print (buckets_line bs)) (\<lambda>_.
        then_do
          (try_except
             (then_do (call (Create_bucket ''test-bucket'') (create_bucket sdk s3 ''test-bucket'')) (\<lambda>_.
              py_print s3_created_line))
             (\<lambda>e. if in_str ''BucketAlreadyExists'' (exn_str e)
                      \<or> in_str ''BucketNameUnavailable'' (exn_str e)
                   then py_print s3_exists_line
                   else py_raise e)) (\<lambda>_.
        then_do (call (Put_object ''test-bucket'' ''test_file_boto.txt'' ''Hello Boto3'')
                   (put_object sdk s3 ''test-bucket'' ''test_file_boto.txt'' ''Hello Boto3'')) (\<lambda>_.
        py_print s3_upload_line)))))))
       (\<lambda>e. py_print (s3_error_line e)))"

definition sim_create_azure_container :: "('s, 'k, 'w) blob_sdk \<Rightarrow> (unit, 'w) prog" where
  "sim_create_azure_container az =
     then_do (py_print azure_header) (\<lambda>_.
     try_except
       (then_do (call (From_connection_string connection_string)
                   (from_connection_string az connection_string)) (\<lambda>blob_service_client.
        then_do (call (Get_container_client ''test-container'')
                   (get_container_client az blob_service_client ''test-container'')) (\<lambda>container_client.
        try_except
          (then_do (call Create_container (create_container az container_client)) (\<lambda>_.
           py_print azure_created_line))
          (\<lambda>e. if in_str ''ContainerAlreadyExists'' (exn_str e)
                then py_print azure_exists_line
                else py_print (azure_error_line e)))))
       (\<lambda>e. py_print (azure_script_error_line e)))"

definition sim_main :: "('c, 'w) s3_sdk \<Rightarrow> ('s, 'k, 'w) blob_sdk \<Rightarrow> (unit, 'w) prog" where
  "sim_main sdk az = then_do (sim_create_s3_bucket sdk) (\<lambda>_. sim_create_azure_container az)"

section \<open>Predicates used in the statements\<close>

text \<open>The already-exists tests of the two handlers, named for the statements below.\<close>

definition s3_already_exists :: "pyexn \<Rightarrow> bool" where
  "s3_already_exists e =
     (in_str ''BucketAlreadyExists'' (exn_str e) \<or> in_str ''BucketNameUnavailable'' (exn_str e))"

definition azure_already_exists :: "pyexn \<Rightarrow> bool" where
  "azure_already_exists e = in_str ''ContainerAlreadyExists'' (exn_str e)"

text \<open>The exceptions the SDK calls of a run raised, in order.\<close>

fun raised :: "event list \<Rightarrow> pyexn list" where
  "raised [] = []"
| "raised (Called c (Some e) # t) = e # raised t"
| "raised (ev # t) = raised t"

text \<open>The SDK calls of a run, in order, and the lines it printed, in order.\<close>

fun calls :: "event list \<Rightarrow> sdk_call list" where
  "calls [] = []"
| "calls (Called c x # t) = c # calls t"
| "calls (Printed l # t) = calls t"

fun printed :: "event list \<Rightarrow> string list" where
  "printed [] = []"
| "printed (Printed l # t) = l # printed t"
| "printed (Called c x # t) = printed t"

text \<open>
  Every exception an SDK call of the run raised is an instance of \<^verbatim>\<open>Exception\<close>, as the
  errors of boto3 and of the Azure SDK are.
\<close>

definition sdk_raised_Exceptions :: "event list \<Rightarrow> bool" where
  "sdk_raised_Exceptions t = list_all is_Exception (raised t)"

text \<open>
  The contract of \<^verbatim>\<open>PutObject\<close> assumed of an S3 service, against an observation
  \<open>stored\<close> of the objects it holds: a call that returns has stored the body under the key.
\<close>

definition put_object_stores ::
  "('c, 'w) s3_sdk \<Rightarrow> ('w \<Rightarrow> string \<Rightarrow> string \<Rightarrow> string option) \<Rightarrow> bool" where
  "put_object_stores sdk stored =
     (\<forall>c b k v w w'. put_object sdk c b k v w = (Inr (), w') \<longrightarrow> stored w' b k = Some v)"

text \<open>
  The ensure-bucket step of the richer script succeeded: \<^verbatim>\<open>create_bucket\<close> returned, or it
  raised an \<^verbatim>\<open>Exception\<close> that the inner handler takes for "already exists".
\<close>

definition ensure_ok :: "pyexn + unit \<Rightarrow> bool" where
  "ensure_ok r = (case r of Inr u \<Rightarrow> True | Inl e \<Rightarrow> is_Exception e \<and> s3_already_exists e)"

text \<open>The events of the richer script up to the upload, when the ensure-bucket step succeeded.\<close>

definition ensured :: "string \<Rightarrow> pyexn + unit \<Rightarrow> event list" where
  "ensured bs r =
     [Printed s3_header, Called (Boto3_client sim_s3_cfg) None, Called List_buckets None,
      Printed (buckets_line bs)] @
     (case r of
        Inr u \<Rightarrow> [Called (Create_bucket ''test-bucket'') None, Printed s3_created_line]
      | Inl e \<Rightarrow> [Called (Create_bucket ''test-bucket'') (Some e), Printed s3_exists_line])"

text \<open>
  A run reported its failures: each exception an SDK call raised was printed. In
  \<^verbatim>\<open>create_resources.py\<close> every S3 exception goes to the one S3 error line. In the richer
  script an already-exists error of the creation goes to the informational line instead. In
  the container provisioner a creation error goes to the inner handler (informational line
  or error line), an error of the two handle calls to the outer handler.
\<close>

definition s3_reported :: "event list \<Rightarrow> bool" where
  "s3_reported t = list_all (\<lambda>e. Printed (s3_error_line e) \<in> set t) (raised t)"

fun sim_s3_report :: "event \<Rightarrow> event list" where
  "sim_s3_report (Called c (Some e)) =
     (if c = Create_bucket ''test-bucket'' \<and> s3_already_exists e
      then [Printed s3_exists_line] else [Printed (s3_error_line e)])"
| "sim_s3_report ev = []"

definition sim_s3_reported :: "event list \<Rightarrow> bool" where
  "sim_s3_reported t = list_all (\<lambda>ev. set (sim_s3_report ev) \<subseteq> set t) t"

fun azure_report :: "event \<Rightarrow> event list" where
  "azure_report (Called c (Some e)) =
     (if c = Create_container
      then [Printed (if azure_already_exists e then azure_exists_line else azure_error_line e)]
      else [Printed (azure_script_error_line e)])"
| "azure_report ev = []"

definition azure_reported :: "event list \<Rightarrow> bool" where
  "azure_reported t = list_all (\<lambda>ev. set (azure_report ev) \<subseteq> set t) t"

text \<open>The S3 error path was taken: a line that starts as the line of the outer handler does.\<close>

definition s3_error_printed :: "event list \<Rightarrow> bool" where
  "s3_error_printed t = list_ex (prefix (glyph_err @ '' S3 Error: '')) (printed t)"

section \<open>A reference emulator\<close>

text \<open>
  A small in-memory stand-in for the two local services, on which the statements below are
  exercised: an S3 endpoint that refuses connections when down, rejects a second creation
  of a bucket and an upload to a missing bucket; a blob endpoint likewise.
\<close>

record emulator =
  s3_up :: bool
  buckets :: "string list"
  objects :: "((string \<times> string) \<times> string) list"
  blob_up :: bool
  containers :: "string list"

definition endpoint_error :: pyexn where
  "endpoint_error = PyExn True ''Could not connect to the endpoint URL''"

definition bucket_exists_error :: pyexn where
  "bucket_exists_error =
     PyExn True ''An error occurred (BucketAlreadyExists) when calling the CreateBucket operation''"

definition no_such_bucket_error :: pyexn where
  "no_such_bucket_error =
     PyExn True ''An error occurred (NoSuchBucket) when calling the PutObject operation''"

definition container_exists_error :: pyexn where
  "container_exists_error = PyExn True ''The specified container already exists. ErrorCode:ContainerAlreadyExists''"

definition malformed_error :: pyexn where
  "malformed_error = PyExn True ''Connection string is either blank or malformed.''"

primrec show_names :: "string list \<Rightarrow> string" where
  "show_names [] = []"
| "show_names (b # bs) = [CHR 0x27] @ b @ [CHR 0x27] @ (if bs = [] then [] else '', '' @ show_names bs)"

definition emu_s3 :: "(s3_config, emulator) s3_sdk" where
  "emu_s3 =
     \<lparr> boto3_client = (\<lambda>cfg w. (Inr cfg, w)),
       list_buckets = (\<lambda>c w.
         if s3_up w then (Inr [(''Buckets'', ''['' @ show_names (buckets w) @ '']'')], w)
         else (Inl endpoint_error, w)),
       create_bucket = (\<lambda>c b w.
         if s3_up w
         then (if b \<in> set (buckets w) then (Inl bucket_exists_error, w)
               else (Inr (), w\<lparr>buckets := buckets w @ [b]\<rparr>))
         else (Inl endpoint_error, w)),
       put_object = (\<lambda>c b k v w.
         if s3_up w
         then (if b \<in> set (buckets w) then (Inr (), w\<lparr>objects := ((b, k), v) # objects w\<rparr>)
               else (Inl no_such_bucket_error, w))
         else (Inl endpoint_error, w)) \<rparr>"

definition emu_stored :: "emulator \<Rightarrow> string \<Rightarrow> string \<Rightarrow> string option" where
  "emu_stored w b k = map_of (objects w) (b, k)"

definition emu_blob :: "(string, string, emulator) blob_sdk" where
  "emu_blob =
     \<lparr> from_connection_string = (\<lambda>cs w. (Inr cs, w)),
       get_container_client = (\<lambda>s name w. (Inr name, w)),
       create_container = (\<lambda>name w.
         if blob_up w
         then (if name \<in> set (containers w) then (Inl container_exists_error, w)
               else (Inr (), w\<lparr>containers := containers w @ [name]\<rparr>))
         else (Inl endpoint_error, w)) \<rparr>"

text \<open>A blob SDK that rejects every connection string, and one that hands out no container client.\<close>

definition emu_blob_malformed :: "(string, string, emulator) blob_sdk" where
  "emu_blob_malformed = emu_blob \<lparr> from_connection_string := (\<lambda>cs w. (Inl malformed_error, w)) \<rparr>"

definition emu_blob_no_container_client :: "(string, string, emulator) blob_sdk" where
  "emu_blob_no_container_client =
     emu_blob \<lparr> get_container_client := (\<lambda>s name w. (Inl malformed_error, w)) \<rparr>"

text \<open>An S3 service whose endpoint drops at the creation, and one whose endpoint drops at the upload.\<close>

definition emu_s3_create_fails :: "(s3_config, emulator) s3_sdk" where
  "emu_s3_create_fails = emu_s3 \<lparr> create_bucket := (\<lambda>c b w. (Inl endpoint_error, w)) \<rparr>"

definition emu_s3_put_fails :: "(s3_config, emulator) s3_sdk" where
  "emu_s3_put_fails = emu_s3 \<lparr> put_object := (\<lambda>c b k v w. (Inl endpoint_error, w)) \<rparr>"

text \<open>
  An S3 service that refuses the creation, and one that refuses the upload, each with an
  error text that names the operation, as the texts of boto3 do.
\<close>

definition create_denied_error :: pyexn where
  "create_denied_error =
     PyExn True ''An error occurred (AccessDenied) when calling the CreateBucket operation''"

definition put_denied_error :: pyexn where
  "put_denied_error =
     PyExn True ''An error occurred (AccessDenied) when calling the PutObject operation''"

definition emu_s3_create_denied :: "(s3_config, emulator) s3_sdk" where
  "emu_s3_create_denied = emu_s3 \<lparr> create_bucket := (\<lambda>c b w. (Inl create_denied_error, w)) \<rparr>"

definition emu_s3_put_denied :: "(s3_config, emulator) s3_sdk" where
  "emu_s3_put_denied = emu_s3 \<lparr> put_object := (\<lambda>c b k v w. (Inl put_denied_error, w)) \<rparr>"

definition fresh :: emulator where
  "fresh = \<lparr> s3_up = True, buckets = [], objects = [], blob_up = True, containers = [] \<rparr>"

definition down :: emulator where
  "down = \<lparr> s3_up = False, buckets = [], objects = [], blob_up = False, containers = [] \<rparr>"

definition provisioned :: emulator where
  "provisioned =
     \<lparr> s3_up = True, buckets = [''test-bucket''],
       objects = [((''test-bucket'', ''test_file_boto.txt''), ''Hello Boto3'')],
       blob_up = True, containers = [''test-container''] \<rparr>"

section \<open>Runs, path by path\<close>

lemmas prog_defs = then_do_def try_except_def call_def py_print_def py_raise_def ret_def
  subscript_def

lemmas obs_defs = result_def trace_def world_def

lemma sim_azure_same: "sim_create_azure_container = create_azure_container"
  by (rule ext) (simp add: sim_create_azure_container_def create_azure_container_def)

subsection \<open>create\_s3\_bucket of create\_resources.py\<close>

lemma s3_client_raises:
  assumes "boto3_client sdk s3_cfg w = (Inl e, w1)"
  shows "create_s3_bucket sdk w =
    (if is_Exception e then Inr () else Inl e,
     [Printed s3_header, Called (Boto3_client s3_cfg) (Some e)] @
       (if is_Exception e then [Printed (s3_error_line e)] else []), w1)"
  using assms by (simp add: create_s3_bucket_def prog_defs)

lemma s3_create_raises:
  assumes "boto3_client sdk s3_cfg w = (Inr c, w1)"
    and "create_bucket sdk c ''test-bucket'' w1 = (Inl e, w2)"
  shows "create_s3_bucket sdk w =
    (if is_Exception e then Inr () else Inl e,
     [Printed s3_header, Called (Boto3_client s3_cfg) None,
      Called (Create_bucket ''test-bucket'') (Some e)] @
       (if is_Exception e then [Printed (s3_error_line e)] else []), w2)"
  using assms by (simp add: create_s3_bucket_def prog_defs)

lemma s3_created:
  assumes "boto3_client sdk s3_cfg w = (Inr c, w1)"
    and "create_bucket sdk c ''test-bucket'' w1 = (Inr u, w2)"
  shows "create_s3_bucket sdk w =
    (Inr (), [Printed s3_header, Called (Boto3_client s3_cfg) None,
      Called (Create_bucket ''test-bucket'') None, Printed s3_created_line], w2)"
  using assms by (simp add: create_s3_bucket_def prog_defs)

subsection \<open>create\_azure\_container\<close>

lemma azure_from_raises:
  assumes "from_connection_string az connection_string w = (Inl e, w1)"
  shows "create_azure_container az w =
    (if is_Exception e then Inr () else Inl e,
     [Printed azure_header, Called (From_connection_string connection_string) (Some e)] @
       (if is_Exception e then [Printed (azure_script_error_line e)] else []), w1)"
  using assms by (simp add: create_azure_container_def prog_defs)

lemma azure_get_raises:
  assumes "from_connection_string az connection_string w = (Inr s, w1)"
    and "get_container_client az s ''test-container'' w1 = (Inl e, w2)"
  shows "create_azure_container az w =
    (if is_Exception e then Inr () else Inl e,
     [Printed azure_header, Called (From_connection_string connection_string) None,
      Called (Get_container_client ''test-container'') (Some e)] @
       (if is_Exception e then [Printed (azure_script_error_line e)] else []), w2)"
  using assms by (simp add: create_azure_container_def prog_defs)

lemma azure_create_raises:
  assumes "from_connection_string az connection_string w = (Inr s, w1)"
    and "get_container_client az s ''test-container'' w1 = (Inr k, w2)"
    and "create_container az k w2 = (Inl e, w3)"
  shows "create_azure_container az w =
    (if is_Exception e then Inr () else Inl e,
     [Printed azure_header, Called (From_connection_string connection_string) None,
      Called (Get_container_client ''test-container'') None,
      Called Create_container (Some e)] @
       (if is_Exception e
        then [Printed (if azure_already_exists e then azure_exists_line else azure_error_line e)]
        else []), w3)"
  using assms by (simp add: create_azure_container_def prog_defs azure_already_exists_def)

lemma azure_created:
  assumes "from_connection_string az connection_string w = (Inr s, w1)"
    and "get_container_client az s ''test-container'' w1 = (Inr k, w2)"
    and "create_container az k w2 = (Inr u, w3)"
  shows "create_azure_container az w =
    (Inr (), [Printed azure_header, Called (From_connection_string connection_string) None,
      Called (Get_container_client ''test-container'') None,
      Called Create_container None, Printed azure_created_line], w3)"
  using assms by (simp add: create_azure_container_def prog_defs)

subsection \<open>create\_s3\_bucket of storage-simulator/create\_resources.py\<close>

lemma sim_s3_client_raises:
  assumes "boto3_client sdk sim_s3_cfg w = (Inl e, w1)"
  shows "sim_create_s3_bucket sdk w =
    (if is_Exception e then Inr () else Inl e,
     [Printed s3_header, Called (Boto3_client sim_s3_cfg) (Some e)] @
       (if is_Exception e then [Printed (s3_error_line e)] else []), w1)"
  using assms by (simp add: sim_create_s3_bucket_def prog_defs)

lemma sim_s3_list_raises:
  assumes "boto3_client sdk sim_s3_cfg w = (Inr c, w1)"
    and "list_buckets sdk c w1 = (Inl e, w2)"
  shows "sim_create_s3_bucket sdk w =
    (if is_Exception e then Inr () else Inl e,
     [Printed s3_header, Called (Boto3_client sim_s3_cfg) None, Called List_buckets (Some e)] @
       (if is_Exception e then [Printed (s3_error_line e)] else []), w2)"
  using assms by (simp add: sim_create_s3_bucket_def prog_defs)

lemma sim_s3_no_buckets_key:
  assumes "boto3_client sdk sim_s3_cfg w = (Inr c, w1)"
    and "list_buckets sdk c w1 = (Inr response, w2)"
    and "map_of response ''Buckets'' = None"
  shows "sim_create_s3_bucket sdk w =
    (Inr (), [Printed s3_header, Called (Boto3_client sim_s3_cfg) None, Called List_buckets None,
       Printed (s3_error_line (PyExn True ([CHR 0x27] @ ''Buckets'' @ [CHR 0x27])))], w2)"
  using assms by (simp add: sim_create_s3_bucket_def prog_defs)

lemma sim_s3_create_raises_other:
  assumes "boto3_client sdk sim_s3_cfg w = (Inr c, w1)"
    and "list_buckets sdk c w1 = (Inr response, w2)"
    and "map_of response ''Buckets'' = Some bs"
    and "create_bucket sdk c ''test-bucket'' w2 = (Inl e, w3)"
    and "\<not> (is_Exception e \<and> s3_already_exists e)"
  shows "sim_create_s3_bucket sdk w =
    (if is_Exception e then Inr () else Inl e,
     [Printed s3_header, Called (Boto3_client sim_s3_cfg) None, Called List_buckets None,
      Printed (buckets_line bs), Called (Create_bucket ''test-bucket'') (Some e)] @
       (if is_Exception e then [Printed (s3_error_line e)] else []), w3)"
  using assms by (auto simp add: sim_create_s3_bucket_def prog_defs s3_already_exists_def)

lemma sim_s3_put_raises:
  assumes "boto3_client sdk sim_s3_cfg w = (Inr c, w1)"
    and "list_buckets sdk c w1 = (Inr response, w2)"
    and "map_of response ''Buckets'' = Some bs"
    and "create_bucket sdk c ''test-bucket'' w2 = (r, w3)"
    and "ensure_ok r"
    and "put_object sdk c ''test-bucket'' ''test_file_boto.txt'' ''Hello Boto3'' w3 = (Inl e, w4)"
  shows "sim_create_s3_bucket sdk w =
    (if is_Exception e then Inr () else Inl e,
     ensured bs r @
     [Called (Put_object ''test-bucket'' ''test_file_boto.txt'' ''Hello Boto3'') (Some e)] @
       (if is_Exception e then [Printed (s3_error_line e)] else []), w4)"
  using assms
  by (cases r) (auto simp add: sim_create_s3_bucket_def prog_defs s3_already_exists_def
      ensured_def ensure_ok_def)

lemma sim_s3_uploaded:
  assumes "boto3_client sdk sim_s3_cfg w = (Inr c, w1)"
    and "list_buckets sdk c w1 = (Inr response, w2)"
    and "map_of response ''Buckets'' = Some bs"
    and "create_bucket sdk c ''test-bucket'' w2 = (r, w3)"
    and "ensure_ok r"
    and "put_object sdk c ''test-bucket'' ''test_file_boto.txt'' ''Hello Boto3'' w3 = (Inr u, w4)"
  shows "sim_create_s3_bucket sdk w =
    (Inr (),
     ensured bs r @
     [Called (Put_object ''test-bucket'' ''test_file_boto.txt'' ''Hello Boto3'') None,
      Printed s3_upload_line], w4)"
  using assms
  by (cases r) (auto simp add: sim_create_s3_bucket_def prog_defs s3_already_exists_def
      ensured_def ensure_ok_def)

subsection \<open>Every run takes one of these paths\<close>

lemma s3_paths [case_names client_raises create_raises created]:
  obtains e w1 where "boto3_client sdk s3_cfg w = (Inl e, w1)"
  | c w1 e w2 where "boto3_client sdk s3_cfg w = (Inr c, w1)"
      and "create_bucket sdk c ''test-bucket'' w1 = (Inl e, w2)"
  | c w1 u w2 where "boto3_client sdk s3_cfg w = (Inr c, w1)"
      and "create_bucket sdk c ''test-bucket'' w1 = (Inr u, w2)"
proof (cases "boto3_client sdk s3_cfg w")
  case (Pair r1 w1)
  show ?thesis
  proof (cases r1)
    case (Inl e)
    with Pair that(1) show ?thesis by simp
  next
    case (Inr c)
    obtain r2 w2 where r2: "create_bucket sdk c ''test-bucket'' w1 = (r2, w2)"
      by (cases "create_bucket sdk c ''test-bucket'' w1")
    show ?thesis
    proof (cases r2)
      case (Inl e)
      with Pair Inr r2 that(2) show ?thesis by simp
    next
      case inr2: (Inr u)
      with Pair Inr r2 that(3) show ?thesis by simp
    qed
  qed
qed

lemma azure_paths [case_names from_raises get_raises create_raises created]:
  obtains e w1 where "from_connection_string az connection_string w = (Inl e, w1)"
  | s w1 e w2 where "from_connection_string az connection_string w = (Inr s, w1)"
      and "get_container_client az s ''test-container'' w1 = (Inl e, w2)"
  | s w1 k w2 e w3 where "from_connection_string az connection_string w = (Inr s, w1)"
      and "get_container_client az s ''test-container'' w1 = (Inr k, w2)"
      and "create_container az k w2 = (Inl e, w3)"
  | s w1 k w2 u w3 where "from_connection_string az connection_string w = (Inr s, w1)"
      and "get_container_client az s ''test-container'' w1 = (Inr k, w2)"
      and "create_container az k w2 = (Inr u, w3)"
proof (cases "from_connection_string az connection_string w")
  case (Pair r1 w1)
  show ?thesis
  proof (cases r1)
    case (Inl e)
    with Pair that(1) show ?thesis by simp
  next
    case (Inr s)
    obtain r2 w2 where r2: "get_container_client az s ''test-container'' w1 = (r2, w2)"
      by (cases "get_container_client az s ''test-container'' w1")
    show ?thesis
    proof (cases r2)
      case (Inl e)
      with Pair Inr r2 that(2) show ?thesis by simp
    next
      case k: (Inr k)
      obtain r3 w3 where r3: "create_container az k w2 = (r3, w3)"
        by (cases "create_container az k w2")
      show ?thesis
      proof (cases r3)
        case (Inl e)
        with Pair Inr r2 k r3 that(3) show ?thesis by simp
      next
        case u: (Inr u)
        with Pair Inr r2 k r3 that(4) show ?thesis by simp
      qed
    qed
  qed
qed

lemma sim_s3_paths
  [case_names client_raises list_raises no_key create_raises put_raises uploaded]:
  obtains e w1 where "boto3_client sdk sim_s3_cfg w = (Inl e, w1)"
  | c w1 e w2 where "boto3_client sdk sim_s3_cfg w = (Inr c, w1)"
      and "list_buckets sdk c w1 = (Inl e, w2)"
  | c w1 response w2 where "boto3_client sdk sim_s3_cfg w = (Inr c, w1)"
      and "list_buckets sdk c w1 = (Inr response, w2)"
      and "map_of response ''Buckets'' = None"
  | c w1 response w2 bs e w3 where "boto3_client sdk sim_s3_cfg w = (Inr c, w1)"
      and "list_buckets sdk c w1 = (Inr response, w2)"
      and "map_of response ''Buckets'' = Some bs"
      and "create_bucket sdk c ''test-bucket'' w2 = (Inl e, w3)"
      and "\<not> (is_Exception e \<and> s3_already_exists e)"
  | c w1 response w2 bs r w3 e w4 where "boto3_client sdk sim_s3_cfg w = (Inr c, w1)"
      and "list_buckets sdk c w1 = (Inr response, w2)"
      and "map_of response ''Buckets'' = Some bs"
      and "create_bucket sdk c ''test-bucket'' w2 = (r, w3)"
      and "ensure_ok r"
      and "put_object sdk c ''test-bucket'' ''test_file_boto.txt'' ''Hello Boto3'' w3 = (Inl e, w4)"
  | c w1 response w2 bs r w3 u w4 where "boto3_client sdk sim_s3_cfg w = (Inr c, w1)"
      and "list_buckets sdk c w1 = (Inr response, w2)"
      and "map_of response ''Buckets'' = Some bs"
      and "create_bucket sdk c ''test-bucket'' w2 = (r, w3)"
      and "ensure_ok r"
      and "put_object sdk c ''test-bucket'' ''test_file_boto.txt'' ''Hello Boto3'' w3 = (Inr u, w4)"
proof (cases "boto3_client sdk sim_s3_cfg w")
  case (Pair r1 w1)
  show ?thesis
  proof (cases r1)
    case (Inl e)
    with Pair that(1) show ?thesis by simp
  next
    case (Inr c)
    note client = Pair [unfolded Inr]
    obtain r2 w2 where r2: "list_buckets sdk c w1 = (r2, w2)"
      by (cases "list_buckets sdk c w1")
    show ?thesis
    proof (cases r2)
      case (Inl e)
      with client r2 that(2) show ?thesis by simp
    next
      case resp: (Inr response)
      note listed = r2 [unfolded resp]
      show ?thesis
      proof (cases "map_of response ''Buckets''")
        case None
        with client listed that(3) show ?thesis by simp
      next
        case (Some bs)
        obtain r w3 where r: "create_bucket sdk c ''test-bucket'' w2 = (r, w3)"
          by (cases "create_bucket sdk c ''test-bucket'' w2")
        show ?thesis
        proof (cases "ensure_ok r")
          case False
          then obtain e where "r = Inl e" "\<not> (is_Exception e \<and> s3_already_exists e)"
            by (cases r) (simp_all add: ensure_ok_def)
          with client listed Some r that(4) show ?thesis by simp
        next
          case True
          obtain r4 w4 where r4:
            "put_object sdk c ''test-bucket'' ''test_file_boto.txt'' ''Hello Boto3'' w3 = (r4, w4)"
            by (cases "put_object sdk c ''test-bucket'' ''test_file_boto.txt'' ''Hello Boto3'' w3")
          show ?thesis
          proof (cases r4)
            case (Inl e)
            with client listed Some r True r4 that(5) show ?thesis by simp
          next
            case u: (Inr u)
            with client listed Some r True r4 that(6) show ?thesis by simp
          qed
        qed
      qed
    qed
  qed
qed

subsection \<open>The first event\<close>

lemma s3_header_first: "\<exists>t. trace (create_s3_bucket sdk w) = Printed s3_header # t"
  by (simp add: create_s3_bucket_def prog_defs obs_defs split: prod.splits sum.splits)

lemma sim_s3_header_first: "\<exists>t. trace (sim_create_s3_bucket sdk w) = Printed s3_header # t"
  by (simp add: sim_create_s3_bucket_def prog_defs obs_defs split: prod.splits sum.splits)

lemma azure_header_first: "\<exists>t. trace (create_azure_container az w) = Printed azure_header # t"
  by (simp add: create_azure_container_def prog_defs obs_defs split: prod.splits sum.splits)

subsection \<open>Handled exceptions\<close>

lemma raised_append: "raised (a @ b) = raised a @ raised b"
  by (induction a rule: raised.induct) simp_all

lemma s3_swallows:
  assumes "sdk_raised_Exceptions (trace (create_s3_bucket sdk w))"
  shows "result (create_s3_bucket sdk w) = Inr () \<and> s3_reported (trace (create_s3_bucket sdk w))"
proof (cases rule: s3_paths [of sdk w])
  case (client_raises e w1)
  with assms show ?thesis
    by (auto simp add: s3_client_raises obs_defs sdk_raised_Exceptions_def s3_reported_def
        split: if_splits)
next
  case (create_raises c w1 e w2)
  with assms show ?thesis
    by (auto simp add: s3_create_raises obs_defs sdk_raised_Exceptions_def s3_reported_def
        split: if_splits)
next
  case (created c w1 u w2)
  then show ?thesis
    by (simp add: s3_created obs_defs s3_reported_def)
qed

lemma azure_swallows:
  assumes "sdk_raised_Exceptions (trace (create_azure_container az w))"
  shows "result (create_azure_container az w) = Inr ()
    \<and> azure_reported (trace (create_azure_container az w))"
proof (cases rule: azure_paths [of az w])
  case (from_raises e w1)
  with assms show ?thesis
    by (auto simp add: azure_from_raises obs_defs sdk_raised_Exceptions_def azure_reported_def
        split: if_splits)
next
  case (get_raises s w1 e w2)
  with assms show ?thesis
    by (auto simp add: azure_get_raises obs_defs sdk_raised_Exceptions_def azure_reported_def
        split: if_splits)
next
  case (create_raises s w1 k w2 e w3)
  with assms show ?thesis
    by (auto simp add: azure_create_raises obs_defs sdk_raised_Exceptions_def azure_reported_def
        split: if_splits)
next
  case (created s w1 k w2 u w3)
  then show ?thesis
    by (simp add: azure_created obs_defs azure_reported_def)
qed

lemma raised_ensured:
  "raised (ensured bs r) = (case r of Inl e \<Rightarrow> [e] | Inr u \<Rightarrow> [])"
  by (simp add: ensured_def split: sum.splits)

lemma ensured_reported:
  assumes "ensure_ok r" and "ev \<in> set (ensured bs r)"
  shows "set (sim_s3_report ev) \<subseteq> set (ensured bs r)"
  using assms by (auto simp add: ensured_def ensure_ok_def split: sum.splits)

lemma sim_s3_swallows:
  assumes "sdk_raised_Exceptions (trace (sim_create_s3_bucket sdk w))"
  shows "result (sim_create_s3_bucket sdk w) = Inr ()
    \<and> sim_s3_reported (trace (sim_create_s3_bucket sdk w))"
proof (cases rule: sim_s3_paths [of sdk w])
  case (client_raises e w1)
  with assms show ?thesis
    by (auto simp add: sim_s3_client_raises obs_defs sdk_raised_Exceptions_def
        sim_s3_reported_def split: if_splits)
next
  case (list_raises c w1 e w2)
  with assms show ?thesis
    by (auto simp add: sim_s3_list_raises obs_defs sdk_raised_Exceptions_def
        sim_s3_reported_def split: if_splits)
next
  case (no_key c w1 response w2)
  then show ?thesis
    by (simp add: sim_s3_no_buckets_key obs_defs sim_s3_reported_def)
next
  case (create_raises c w1 response w2 bs e w3)
  with assms show ?thesis
    by (auto simp add: sim_s3_create_raises_other obs_defs sdk_raised_Exceptions_def
        sim_s3_reported_def split: if_splits)
next
  case (put_raises c w1 response w2 bs r w3 e w4)
  note run = sim_s3_put_raises [OF put_raises]
  from assms have exc: "is_Exception e"
    by (simp add: run obs_defs sdk_raised_Exceptions_def raised_append split: if_splits)
  have "list_all (\<lambda>ev. set (sim_s3_report ev) \<subseteq> set (ensured bs r)) (ensured bs r)"
    using ensured_reported [OF put_raises(5)] by (simp add: list_all_iff)
  then have "list_all (\<lambda>ev. set (sim_s3_report ev) \<subseteq> set (trace (sim_create_s3_bucket sdk w)))
      (ensured bs r)"
    by (auto simp add: list_all_iff run obs_defs)
  with exc show ?thesis
    by (simp add: run obs_defs sim_s3_reported_def)
next
  case (uploaded c w1 response w2 bs r w3 u w4)
  note run = sim_s3_uploaded [OF uploaded]
  have "list_all (\<lambda>ev. set (sim_s3_report ev) \<subseteq> set (ensured bs r)) (ensured bs r)"
    using ensured_reported [OF uploaded(5)] by (simp add: list_all_iff)
  then have "list_all (\<lambda>ev. set (sim_s3_report ev) \<subseteq> set (trace (sim_create_s3_bucket sdk w)))
      (ensured bs r)"
    by (auto simp add: list_all_iff run obs_defs)
  then show ?thesis
    by (simp add: run obs_defs sim_s3_reported_def)
qed

subsection \<open>Sequencing\<close>

lemma then_do_returns:
  assumes "result (m w) = Inr x"
  shows "then_do m f w =
    (result (f x (world (m w))), trace (m w) @ trace (f x (world (m w))),
     world (f x (world (m w))))"
  using assms by (cases "m w") (simp add: then_do_def obs_defs split: prod.splits)

lemma then_do_raises:
  assumes "result (m w) = Inl e"
  shows "then_do m f w = (Inl e, trace (m w), world (m w))"
  using assms by (cases "m w") (simp add: then_do_def obs_defs)

lemma sdk_raised_Exceptions_append:
  "sdk_raised_Exceptions (a @ b) \<longleftrightarrow> sdk_raised_Exceptions a \<and> sdk_raised_Exceptions b"
  by (simp add: sdk_raised_Exceptions_def raised_append)

lemma main_returns:
  assumes "sdk_raised_Exceptions (trace (main sdk az w))"
  shows "result (main sdk az w) = Inr ()"
proof (cases "result (create_s3_bucket sdk w)")
  case (Inl e)
  from assms have "sdk_raised_Exceptions (trace (create_s3_bucket sdk w))"
    by (simp add: main_def then_do_raises [where m = "create_s3_bucket sdk" and w = w, OF Inl] obs_defs)
  with Inl s3_swallows [of sdk w] show ?thesis by simp
next
  case (Inr u)
  from assms have "sdk_raised_Exceptions (trace (create_azure_container az (world (create_s3_bucket sdk w))))"
    by (simp add: main_def then_do_returns [where m = "create_s3_bucket sdk" and w = w, OF Inr] obs_defs sdk_raised_Exceptions_append)
  then show ?thesis
    using azure_swallows [of az "world (create_s3_bucket sdk w)"]
    by (simp add: main_def then_do_returns [where m = "create_s3_bucket sdk" and w = w, OF Inr] obs_defs)
qed

lemma sim_main_returns:
  assumes "sdk_raised_Exceptions (trace (sim_main sdk az w))"
  shows "result (sim_main sdk az w) = Inr ()"
proof (cases "result (sim_create_s3_bucket sdk w)")
  case (Inl e)
  from assms have "sdk_raised_Exceptions (trace (sim_create_s3_bucket sdk w))"
    by (simp add: sim_main_def then_do_raises [where m = "sim_create_s3_bucket sdk" and w = w, OF Inl] obs_defs)
  with Inl sim_s3_swallows [of sdk w] show ?thesis by simp
next
  case (Inr u)
  from assms have "sdk_raised_Exceptions (trace (create_azure_container az (world (sim_create_s3_bucket sdk w))))"
    by (simp add: sim_main_def then_do_returns [where m = "sim_create_s3_bucket sdk" and w = w, OF Inr] obs_defs sdk_raised_Exceptions_append
        sim_azure_same)
  then show ?thesis
    using azure_swallows [of az "world (sim_create_s3_bucket sdk w)"]
    by (simp add: sim_main_def then_do_returns [where m = "sim_create_s3_bucket sdk" and w = w, OF Inr] obs_defs sim_azure_same)
qed

subsection \<open>Runs against the reference emulator\<close>

lemma emu_s3_simps:
  "boto3_client emu_s3 cfg w = (Inr cfg, w)"
  "list_buckets emu_s3 c w =
     (if s3_up w then (Inr [(''Buckets'', ''['' @ show_names (buckets w) @ '']'')], w)
      else (Inl endpoint_error, w))"
  "create_bucket emu_s3 c b w =
     (if s3_up w
      then (if b \<in> set (buckets w) then (Inl bucket_exists_error, w)
            else (Inr (), w\<lparr>buckets := buckets w @ [b]\<rparr>))
      else (Inl endpoint_error, w))"
  "put_object emu_s3 c b k v w =
     (if s3_up w
      then (if b \<in> set (buckets w) then (Inr (), w\<lparr>objects := ((b, k), v) # objects w\<rparr>)
            else (Inl no_such_bucket_error, w))
      else (Inl endpoint_error, w))"
  by (simp_all add: emu_s3_def)

lemma emu_blob_simps:
  "from_connection_string emu_blob cs w = (Inr cs, w)"
  "get_container_client emu_blob s name w = (Inr name, w)"
  "create_container emu_blob name w =
     (if blob_up w
      then (if name \<in> set (containers w) then (Inl container_exists_error, w)
            else (Inr (), w\<lparr>containers := containers w @ [name]\<rparr>))
      else (Inl endpoint_error, w))"
  by (simp_all add: emu_blob_def)

lemma endpoint_error_simps:
  "is_Exception endpoint_error" "\<not> s3_already_exists endpoint_error"
  "\<not> azure_already_exists endpoint_error"
  by (simp_all add: endpoint_error_def s3_already_exists_def azure_already_exists_def)

lemma s3_down:
  "create_s3_bucket emu_s3 down =
     (Inr (), [Printed s3_header, Called (Boto3_client s3_cfg) None,
        Called (Create_bucket ''test-bucket'') (Some endpoint_error),
        Printed (s3_error_line endpoint_error)], down)"
  using s3_create_raises [of emu_s3 down s3_cfg down endpoint_error down]
  by (simp add: emu_s3_simps endpoint_error_simps down_def)

lemma sim_s3_down:
  "sim_create_s3_bucket emu_s3 down =
     (Inr (), [Printed s3_header, Called (Boto3_client sim_s3_cfg) None,
        Called List_buckets (Some endpoint_error),
        Printed (s3_error_line endpoint_error)], down)"
  using sim_s3_list_raises [of emu_s3 down sim_s3_cfg down endpoint_error down]
  by (simp add: emu_s3_simps endpoint_error_simps down_def)

lemma azure_down:
  "create_azure_container emu_blob down =
     (Inr (), [Printed azure_header, Called (From_connection_string connection_string) None,
        Called (Get_container_client ''test-container'') None,
        Called Create_container (Some endpoint_error),
        Printed (azure_error_line endpoint_error)], down)"
  using azure_create_raises [of emu_blob down connection_string down "''test-container''" down
      endpoint_error down]
  by (simp add: emu_blob_simps endpoint_error_simps down_def)

lemma main_down:
  "main emu_s3 emu_blob down =
     (Inr (), [Printed s3_header, Called (Boto3_client s3_cfg) None,
        Called (Create_bucket ''test-bucket'') (Some endpoint_error),
        Printed (s3_error_line endpoint_error),
        Printed azure_header, Called (From_connection_string connection_string) None,
        Called (Get_container_client ''test-container'') None,
        Called Create_container (Some endpoint_error),
        Printed (azure_error_line endpoint_error)], down)"
  by (simp add: main_def then_do_def s3_down azure_down)

lemma sim_main_down:
  "sim_main emu_s3 emu_blob down =
     (Inr (), [Printed s3_header, Called (Boto3_client sim_s3_cfg) None,
        Called List_buckets (Some endpoint_error),
        Printed (s3_error_line endpoint_error),
        Printed azure_header, Called (From_connection_string connection_string) None,
        Called (Get_container_client ''test-container'') None,
        Called Create_container (Some endpoint_error),
        Printed (azure_error_line endpoint_error)], down)"
  by (simp add: sim_main_def then_do_def sim_s3_down azure_down sim_azure_same)

subsection \<open>More runs against the reference emulator\<close>

lemma bucket_exists_error_simps:
  "is_Exception bucket_exists_error" "s3_already_exists bucket_exists_error"
  by (simp_all add: bucket_exists_error_def s3_already_exists_def)

lemma container_exists_error_simps:
  "is_Exception container_exists_error" "azure_already_exists container_exists_error"
  by (simp_all add: container_exists_error_def azure_already_exists_def)

lemma malformed_error_simps:
  "is_Exception malformed_error" "\<not> azure_already_exists malformed_error"
  by (simp_all add: malformed_error_def azure_already_exists_def)

lemma emu_s3_create_fails_simps:
  "boto3_client emu_s3_create_fails cfg w = (Inr cfg, w)"
  "list_buckets emu_s3_create_fails c w = list_buckets emu_s3 c w"
  "create_bucket emu_s3_create_fails c b w = (Inl endpoint_error, w)"
  by (simp_all add: emu_s3_create_fails_def emu_s3_def)

lemma emu_s3_put_fails_simps:
  "boto3_client emu_s3_put_fails cfg w = (Inr cfg, w)"
  "list_buckets emu_s3_put_fails c w = list_buckets emu_s3 c w"
  "create_bucket emu_s3_put_fails c b w = create_bucket emu_s3 c b w"
  "put_object emu_s3_put_fails c b k v w = (Inl endpoint_error, w)"
  by (simp_all add: emu_s3_put_fails_def emu_s3_def)

lemma emu_blob_malformed_simps:
  "from_connection_string emu_blob_malformed cs w = (Inl malformed_error, w)"
  by (simp add: emu_blob_malformed_def)

lemma emu_blob_no_container_client_simps:
  "from_connection_string emu_blob_no_container_client cs w = (Inr cs, w)"
  "get_container_client emu_blob_no_container_client s name w = (Inl malformed_error, w)"
  by (simp_all add: emu_blob_no_container_client_def emu_blob_def)

lemmas emu_simps = emu_s3_simps emu_blob_simps emu_s3_create_fails_simps emu_s3_put_fails_simps
  emu_blob_malformed_simps emu_blob_no_container_client_simps

lemmas error_simps = endpoint_error_simps bucket_exists_error_simps container_exists_error_simps
  malformed_error_simps

lemma s3_fresh:
  "create_s3_bucket emu_s3 fresh =
     (Inr (), [Printed s3_header, Called (Boto3_client s3_cfg) None,
        Called (Create_bucket ''test-bucket'') None, Printed s3_created_line],
      fresh\<lparr>buckets := [''test-bucket'']\<rparr>)"
  by (simp add: create_s3_bucket_def prog_defs emu_simps fresh_def)

lemma s3_provisioned:
  "create_s3_bucket emu_s3 provisioned =
     (Inr (), [Printed s3_header, Called (Boto3_client s3_cfg) None,
        Called (Create_bucket ''test-bucket'') (Some bucket_exists_error),
        Printed (s3_error_line bucket_exists_error)], provisioned)"
  by (simp add: create_s3_bucket_def prog_defs emu_simps error_simps provisioned_def)

lemma sim_s3_fresh:
  "sim_create_s3_bucket emu_s3 fresh =
     (Inr (), [Printed s3_header, Called (Boto3_client sim_s3_cfg) None, Called List_buckets None,
        Printed (buckets_line ''[]''), Called (Create_bucket ''test-bucket'') None,
        Printed s3_created_line,
        Called (Put_object ''test-bucket'' ''test_file_boto.txt'' ''Hello Boto3'') None,
        Printed s3_upload_line],
      fresh\<lparr>buckets := [''test-bucket''],
        objects := [((''test-bucket'', ''test_file_boto.txt''), ''Hello Boto3'')]\<rparr>)"
  by (simp add: sim_create_s3_bucket_def prog_defs emu_simps fresh_def)

lemma sim_s3_provisioned:
  "sim_create_s3_bucket emu_s3 provisioned =
     (Inr (), [Printed s3_header, Called (Boto3_client sim_s3_cfg) None, Called List_buckets None,
        Printed (buckets_line ([CHR ''['', CHR 0x27] @ ''test-bucket'' @ [CHR 0x27, CHR '']''])),
        Called (Create_bucket ''test-bucket'') (Some bucket_exists_error),
        Printed s3_exists_line,
        Called (Put_object ''test-bucket'' ''test_file_boto.txt'' ''Hello Boto3'') None,
        Printed s3_upload_line],
      provisioned\<lparr>objects := ((''test-bucket'', ''test_file_boto.txt''), ''Hello Boto3'')
        # objects provisioned\<rparr>)"
  using bucket_exists_error_simps
  by (simp add: sim_create_s3_bucket_def prog_defs emu_simps provisioned_def
      s3_already_exists_def)

lemma sim_s3_create_fails_fresh:
  "sim_create_s3_bucket emu_s3_create_fails fresh =
     (Inr (), [Printed s3_header, Called (Boto3_client sim_s3_cfg) None, Called List_buckets None,
        Printed (buckets_line ''[]''),
        Called (Create_bucket ''test-bucket'') (Some endpoint_error),
        Printed (s3_error_line endpoint_error)], fresh)"
  using endpoint_error_simps
  by (simp add: sim_create_s3_bucket_def prog_defs emu_simps fresh_def s3_already_exists_def)

lemma sim_s3_put_fails_fresh:
  "sim_create_s3_bucket emu_s3_put_fails fresh =
     (Inr (), [Printed s3_header, Called (Boto3_client sim_s3_cfg) None, Called List_buckets None,
        Printed (buckets_line ''[]''), Called (Create_bucket ''test-bucket'') None,
        Printed s3_created_line,
        Called (Put_object ''test-bucket'' ''test_file_boto.txt'' ''Hello Boto3'')
          (Some endpoint_error),
        Printed (s3_error_line endpoint_error)], fresh\<lparr>buckets := [''test-bucket'']\<rparr>)"
  using endpoint_error_simps
  by (simp add: sim_create_s3_bucket_def prog_defs emu_simps fresh_def)

lemma azure_fresh:
  "create_azure_container emu_blob fresh =
     (Inr (), [Printed azure_header, Called (From_connection_string connection_string) None,
        Called (Get_container_client ''test-container'') None,
        Called Create_container None, Printed azure_created_line],
      fresh\<lparr>containers := [''test-container'']\<rparr>)"
  by (simp add: create_azure_container_def prog_defs emu_simps fresh_def)

lemma azure_provisioned:
  "create_azure_container emu_blob provisioned =
     (Inr (), [Printed azure_header, Called (From_connection_string connection_string) None,
        Called (Get_container_client ''test-container'') None,
        Called Create_container (Some container_exists_error),
        Printed azure_exists_line], provisioned)"
  using container_exists_error_simps
  by (simp add: create_azure_container_def prog_defs emu_simps provisioned_def
      azure_already_exists_def)

lemma azure_malformed:
  "create_azure_container emu_blob_malformed fresh =
     (Inr (), [Printed azure_header,
        Called (From_connection_string connection_string) (Some malformed_error),
        Printed (azure_script_error_line malformed_error)], fresh)"
  using malformed_error_simps
  by (simp add: create_azure_container_def prog_defs emu_simps)

lemma azure_no_container_client:
  "create_azure_container emu_blob_no_container_client fresh =
     (Inr (), [Printed azure_header, Called (From_connection_string connection_string) None,
        Called (Get_container_client ''test-container'') (Some malformed_error),
        Printed (azure_script_error_line malformed_error)], fresh)"
  using malformed_error_simps
  by (simp add: create_azure_container_def prog_defs emu_simps)

subsection \<open>Substring test\<close>

text \<open>\<open>in_str\<close> is the contiguous-substring relation, as Python's \<^verbatim>\<open>in\<close> on strings.\<close>

lemma in_str_sublist: "in_str needle hay \<longleftrightarrow> sublist needle hay"
  by (induction hay) (simp_all add: sublist_Cons_right)

subsection \<open>Projections of a run\<close>

lemma calls_append: "calls (a @ b) = calls a @ calls b"
  by (induction a rule: calls.induct) simp_all

lemma printed_append: "printed (a @ b) = printed a @ printed b"
  by (induction a rule: printed.induct) simp_all

lemmas line_defs = glyph_ok_def glyph_err_def glyph_info_def s3_header_def azure_header_def
  s3_created_line_def s3_exists_line_def s3_upload_line_def s3_error_line_def buckets_line_def
  azure_created_line_def azure_exists_line_def azure_error_line_def azure_script_error_line_def

lemma printed_iff: "l \<in> set (printed t) \<longleftrightarrow> Printed l \<in> set t"
  by (induction t rule: printed.induct) auto

lemma s3_error_printedI:
  assumes "Printed (s3_error_line e) \<in> set t"
  shows "s3_error_printed t"
proof -
  have "prefix (glyph_err @ '' S3 Error: '') (s3_error_line e)"
    by (simp add: s3_error_line_def)
  with assms show ?thesis
    unfolding s3_error_printed_def list_ex_iff printed_iff [symmetric] by blast
qed

subsection \<open>The S3 error line\<close>

text \<open>The line of the outer S3 handler is the fixed prefix and the text of the exception.\<close>

lemma s3_error_line_eq_iff: "s3_error_line a = s3_error_line b \<longleftrightarrow> exn_str a = exn_str b"
  by (simp add: s3_error_line_def)

lemma denied_error_simps:
  "is_Exception create_denied_error" "\<not> s3_already_exists create_denied_error"
  "is_Exception put_denied_error" "exn_str put_denied_error \<noteq> exn_str create_denied_error"
  by (simp_all add: create_denied_error_def put_denied_error_def s3_already_exists_def)

lemma emu_s3_create_denied_simps:
  "boto3_client emu_s3_create_denied cfg w = (Inr cfg, w)"
  "list_buckets emu_s3_create_denied c w = list_buckets emu_s3 c w"
  "create_bucket emu_s3_create_denied c b w = (Inl create_denied_error, w)"
  by (simp_all add: emu_s3_create_denied_def emu_s3_def)

lemma emu_s3_put_denied_simps:
  "boto3_client emu_s3_put_denied cfg w = (Inr cfg, w)"
  "list_buckets emu_s3_put_denied c w = list_buckets emu_s3 c w"
  "create_bucket emu_s3_put_denied c b w = create_bucket emu_s3 c b w"
  "put_object emu_s3_put_denied c b k v w = (Inl put_denied_error, w)"
  by (simp_all add: emu_s3_put_denied_def emu_s3_def)

lemma sim_s3_create_denied_fresh:
  "sim_create_s3_bucket emu_s3_create_denied fresh =
     (Inr (), [Printed s3_header, Called (Boto3_client sim_s3_cfg) None, Called List_buckets None,
        Printed (buckets_line ''[]''),
        Called (Create_bucket ''test-bucket'') (Some create_denied_error),
        Printed (s3_error_line create_denied_error)], fresh)"
  using denied_error_simps
  by (simp add: sim_create_s3_bucket_def prog_defs emu_s3_create_denied_simps emu_simps fresh_def
      s3_already_exists_def)

lemma sim_s3_put_denied_fresh:
  "sim_create_s3_bucket emu_s3_put_denied fresh =
     (Inr (), [Printed s3_header, Called (Boto3_client sim_s3_cfg) None, Called List_buckets None,
        Printed (buckets_line ''[]''), Called (Create_bucket ''test-bucket'') None,
        Printed s3_created_line,
        Called (Put_object ''test-bucket'' ''test_file_boto.txt'' ''Hello Boto3'')
          (Some put_denied_error),
        Printed (s3_error_line put_denied_error)], fresh\<lparr>buckets := [''test-bucket'']\<rparr>)"
  using denied_error_simps
  by (simp add: sim_create_s3_bucket_def prog_defs emu_s3_put_denied_simps emu_simps fresh_def)

section \<open>The claims\<close>

subsection \<open>C1: No exception leaves a provisioner\<close>

text \<open>
  Claim C1. No exception raised by an SDK call leaves \<open>create_s3_bucket\<close> or
  \<open>create_azure_container\<close> (either script): when every exception the SDK calls of the run
  raised is an instance of \<^verbatim>\<open>Exception\<close>, as SDK errors are, the provisioner returns
  normally and each failure was printed by a handler (the error line with the text of the
  exception; for an already-exists error of a creation, the informational line). Hence
  \<open>main\<close> returns normally too: the process ends as if successful.
\<close>

theorem no_exception_propagates:
  "(sdk_raised_Exceptions (trace (create_s3_bucket sdk w)) \<longrightarrow>
      result (create_s3_bucket sdk w) = Inr () \<and> s3_reported (trace (create_s3_bucket sdk w))) \<and>
   (sdk_raised_Exceptions (trace (sim_create_s3_bucket sdk w)) \<longrightarrow>
      result (sim_create_s3_bucket sdk w) = Inr ()
      \<and> sim_s3_reported (trace (sim_create_s3_bucket sdk w))) \<and>
   (sdk_raised_Exceptions (trace (create_azure_container az w)) \<longrightarrow>
      result (create_azure_container az w) = Inr ()
      \<and> azure_reported (trace (create_azure_container az w))) \<and>
   (sdk_raised_Exceptions (trace (sim_create_azure_container az w)) \<longrightarrow>
      result (sim_create_azure_container az w) = Inr ()
      \<and> azure_reported (trace (sim_create_azure_container az w))) \<and>
   (sdk_raised_Exceptions (trace (main sdk az w)) \<longrightarrow> result (main sdk az w) = Inr ()) \<and>
   (sdk_raised_Exceptions (trace (sim_main sdk az w)) \<longrightarrow> result (sim_main sdk az w) = Inr ())"
  using s3_swallows [of sdk w] sim_s3_swallows [of sdk w] azure_swallows [of az w]
    main_returns [of sdk az w] sim_main_returns [of sdk az w]
  by (simp add: sim_azure_same)

text \<open>With both endpoints unreachable, every provisioner prints an error and returns.\<close>

theorem no_exception_propagates_witness:
  "sdk_raised_Exceptions (trace (create_s3_bucket emu_s3 down)) \<and>
   result (create_s3_bucket emu_s3 down) = Inr () \<and>
   s3_reported (trace (create_s3_bucket emu_s3 down)) \<and>
   sdk_raised_Exceptions (trace (sim_create_s3_bucket emu_s3 down)) \<and>
   result (sim_create_s3_bucket emu_s3 down) = Inr () \<and>
   sim_s3_reported (trace (sim_create_s3_bucket emu_s3 down)) \<and>
   sdk_raised_Exceptions (trace (create_azure_container emu_blob down)) \<and>
   result (create_azure_container emu_blob down) = Inr () \<and>
   azure_reported (trace (create_azure_container emu_blob down)) \<and>
   sdk_raised_Exceptions (trace (sim_create_azure_container emu_blob down)) \<and>
   result (sim_create_azure_container emu_blob down) = Inr () \<and>
   azure_reported (trace (sim_create_azure_container emu_blob down)) \<and>
   sdk_raised_Exceptions (trace (main emu_s3 emu_blob down)) \<and>
   result (main emu_s3 emu_blob down) = Inr () \<and>
   sdk_raised_Exceptions (trace (sim_main emu_s3 emu_blob down)) \<and>
   result (sim_main emu_s3 emu_blob down) = Inr () \<and>
   printed (trace (sim_main emu_s3 emu_blob down)) =
     [s3_header, s3_error_line endpoint_error, azure_header, azure_error_line endpoint_error]"
proof -
  have hyps:
    "sdk_raised_Exceptions (trace (create_s3_bucket emu_s3 down))"
    "sdk_raised_Exceptions (trace (sim_create_s3_bucket emu_s3 down))"
    "sdk_raised_Exceptions (trace (create_azure_container emu_blob down))"
    "sdk_raised_Exceptions (trace (sim_create_azure_container emu_blob down))"
    "sdk_raised_Exceptions (trace (main emu_s3 emu_blob down))"
    "sdk_raised_Exceptions (trace (sim_main emu_s3 emu_blob down))"
    by (simp_all add: s3_down sim_s3_down azure_down sim_azure_same main_down sim_main_down
        trace_def sdk_raised_Exceptions_def endpoint_error_simps)
  have out: "printed (trace (sim_main emu_s3 emu_blob down)) =
     [s3_header, s3_error_line endpoint_error, azure_header, azure_error_line endpoint_error]"
    by (simp add: sim_main_down trace_def)
  show ?thesis
    using no_exception_propagates [of emu_s3 down emu_blob] hyps out by simp
qed

subsection \<open>C2: Already-exists errors are informational\<close>

text \<open>
  Claim C2. A creation error whose text contains "BucketAlreadyExists" or
  "BucketNameUnavailable" (S3, richer script) or "ContainerAlreadyExists" (Azure, both
  scripts) is taken for an already-exists condition: the informational line is printed in
  place of an error line and the function goes on (the S3 provisioner to the upload, the
  container provisioner to its normal return). Every other creation error is printed on the
  error line.
\<close>

theorem already_exists_is_informational:
  "(boto3_client sdk sim_s3_cfg w = (Inr c, w1) \<and> list_buckets sdk c w1 = (Inr response, w2)
      \<and> map_of response ''Buckets'' = Some bs
      \<and> create_bucket sdk c ''test-bucket'' w2 = (Inl e, w3) \<and> is_Exception e \<longrightarrow>
    (if s3_already_exists e
     then \<exists>x rest. trace (sim_create_s3_bucket sdk w) =
       [Printed s3_header, Called (Boto3_client sim_s3_cfg) None, Called List_buckets None,
        Printed (buckets_line bs), Called (Create_bucket ''test-bucket'') (Some e),
        Printed s3_exists_line,
        Called (Put_object ''test-bucket'' ''test_file_boto.txt'' ''Hello Boto3'') x] @ rest
     else sim_create_s3_bucket sdk w =
       (Inr (),
        [Printed s3_header, Called (Boto3_client sim_s3_cfg) None, Called List_buckets None,
         Printed (buckets_line bs), Called (Create_bucket ''test-bucket'') (Some e),
         Printed (s3_error_line e)], w3))) \<and>
   (from_connection_string az connection_string v = (Inr s, v1)
      \<and> get_container_client az s ''test-container'' v1 = (Inr k, v2)
      \<and> create_container az k v2 = (Inl e', v3) \<and> is_Exception e' \<longrightarrow>
    create_azure_container az v =
      (Inr (),
       [Printed azure_header, Called (From_connection_string connection_string) None,
        Called (Get_container_client ''test-container'') None,
        Called Create_container (Some e'),
        Printed (if azure_already_exists e' then azure_exists_line else azure_error_line e')],
       v3)
    \<and> sim_create_azure_container az v = create_azure_container az v)"
proof (intro conjI impI)
  assume h: "boto3_client sdk sim_s3_cfg w = (Inr c, w1) \<and> list_buckets sdk c w1 = (Inr response, w2)
      \<and> map_of response ''Buckets'' = Some bs
      \<and> create_bucket sdk c ''test-bucket'' w2 = (Inl e, w3) \<and> is_Exception e"
  show "if s3_already_exists e
     then \<exists>x rest. trace (sim_create_s3_bucket sdk w) =
       [Printed s3_header, Called (Boto3_client sim_s3_cfg) None, Called List_buckets None,
        Printed (buckets_line bs), Called (Create_bucket ''test-bucket'') (Some e),
        Printed s3_exists_line,
        Called (Put_object ''test-bucket'' ''test_file_boto.txt'' ''Hello Boto3'') x] @ rest
     else sim_create_s3_bucket sdk w =
       (Inr (),
        [Printed s3_header, Called (Boto3_client sim_s3_cfg) None, Called List_buckets None,
         Printed (buckets_line bs), Called (Create_bucket ''test-bucket'') (Some e),
         Printed (s3_error_line e)], w3)"
  proof (cases "s3_already_exists e")
    case False
    with h show ?thesis by (simp add: sim_s3_create_raises_other)
  next
    case True
    with h have ok: "ensure_ok (Inl e)" by (simp add: ensure_ok_def)
    obtain r4 w4 where put:
      "put_object sdk c ''test-bucket'' ''test_file_boto.txt'' ''Hello Boto3'' w3 = (r4, w4)"
      by (cases "put_object sdk c ''test-bucket'' ''test_file_boto.txt'' ''Hello Boto3'' w3")
    show ?thesis
    proof (cases r4)
      case (Inl e4)
      with h ok put True show ?thesis
        by (simp add: sim_s3_put_raises [where r = "Inl e"] ensured_def trace_def)
    next
      case (Inr u)
      with h ok put True show ?thesis
        by (simp add: sim_s3_uploaded [where r = "Inl e"] ensured_def trace_def)
    qed
  qed
next
  assume "from_connection_string az connection_string v = (Inr s, v1)
      \<and> get_container_client az s ''test-container'' v1 = (Inr k, v2)
      \<and> create_container az k v2 = (Inl e', v3) \<and> is_Exception e'"
  then show "create_azure_container az v =
      (Inr (),
       [Printed azure_header, Called (From_connection_string connection_string) None,
        Called (Get_container_client ''test-container'') None,
        Called Create_container (Some e'),
        Printed (if azure_already_exists e' then azure_exists_line else azure_error_line e')],
       v3)"
    by (simp add: azure_create_raises)
next
  show "sim_create_azure_container az v = create_azure_container az v"
    by (simp add: sim_azure_same)
qed

text \<open>
  An existing bucket and an existing container give the informational lines; an endpoint
  that drops at the creation gives the error lines.
\<close>

theorem already_exists_is_informational_witness:
  "is_Exception bucket_exists_error \<and> s3_already_exists bucket_exists_error \<and>
   printed (trace (sim_create_s3_bucket emu_s3 provisioned)) =
     [s3_header, buckets_line ([CHR ''['', CHR 0x27] @ ''test-bucket'' @ [CHR 0x27, CHR '']'']),
      s3_exists_line, s3_upload_line] \<and>
   is_Exception container_exists_error \<and> azure_already_exists container_exists_error \<and>
   printed (trace (create_azure_container emu_blob provisioned)) =
     [azure_header, azure_exists_line] \<and>
   printed (trace (sim_create_azure_container emu_blob provisioned)) =
     [azure_header, azure_exists_line] \<and>
   is_Exception endpoint_error \<and> \<not> s3_already_exists endpoint_error \<and>
   \<not> azure_already_exists endpoint_error \<and>
   printed (trace (sim_create_s3_bucket emu_s3_create_fails fresh)) =
     [s3_header, buckets_line ''[]'', s3_error_line endpoint_error] \<and>
   printed (trace (create_azure_container emu_blob down)) =
     [azure_header, azure_error_line endpoint_error] \<and>
   printed (trace (sim_create_azure_container emu_blob down)) =
     [azure_header, azure_error_line endpoint_error]"
proof -
  let ?bs = "[CHR ''['', CHR 0x27] @ ''test-bucket'' @ [CHR 0x27, CHR '']'']"
  have s3: "boto3_client emu_s3 sim_s3_cfg provisioned = (Inr sim_s3_cfg, provisioned)
      \<and> list_buckets emu_s3 sim_s3_cfg provisioned = (Inr [(''Buckets'', ?bs)], provisioned)
      \<and> map_of [(''Buckets'', ?bs)] ''Buckets'' = Some ?bs
      \<and> create_bucket emu_s3 sim_s3_cfg ''test-bucket'' provisioned
          = (Inl bucket_exists_error, provisioned)
      \<and> is_Exception bucket_exists_error"
    by (simp add: emu_simps provisioned_def error_simps)
  have az: "from_connection_string emu_blob connection_string provisioned
          = (Inr connection_string, provisioned)
      \<and> get_container_client emu_blob connection_string ''test-container'' provisioned
          = (Inr ''test-container'', provisioned)
      \<and> create_container emu_blob ''test-container'' provisioned
          = (Inl container_exists_error, provisioned)
      \<and> is_Exception container_exists_error"
    by (simp add: emu_simps provisioned_def error_simps)
  have s3': "boto3_client emu_s3_create_fails sim_s3_cfg fresh = (Inr sim_s3_cfg, fresh)
      \<and> list_buckets emu_s3_create_fails sim_s3_cfg fresh = (Inr [(''Buckets'', ''[]'')], fresh)
      \<and> map_of [(''Buckets'', ''[]'')] ''Buckets'' = Some ''[]''
      \<and> create_bucket emu_s3_create_fails sim_s3_cfg ''test-bucket'' fresh
          = (Inl endpoint_error, fresh)
      \<and> is_Exception endpoint_error"
    by (simp add: emu_simps fresh_def error_simps)
  have az': "from_connection_string emu_blob connection_string down
          = (Inr connection_string, down)
      \<and> get_container_client emu_blob connection_string ''test-container'' down
          = (Inr ''test-container'', down)
      \<and> create_container emu_blob ''test-container'' down = (Inl endpoint_error, down)
      \<and> is_Exception endpoint_error"
    by (simp add: emu_simps down_def error_simps)
  have a: "\<exists>x rest. trace (sim_create_s3_bucket emu_s3 provisioned) =
       [Printed s3_header, Called (Boto3_client sim_s3_cfg) None, Called List_buckets None,
        Printed (buckets_line ?bs), Called (Create_bucket ''test-bucket'') (Some bucket_exists_error),
        Printed s3_exists_line,
        Called (Put_object ''test-bucket'' ''test_file_boto.txt'' ''Hello Boto3'') x] @ rest"
    and b: "create_azure_container emu_blob provisioned =
      (Inr (),
       [Printed azure_header, Called (From_connection_string connection_string) None,
        Called (Get_container_client ''test-container'') None,
        Called Create_container (Some container_exists_error),
        Printed azure_exists_line], provisioned)"
    and b': "sim_create_azure_container emu_blob provisioned
        = create_azure_container emu_blob provisioned"
    using already_exists_is_informational [of emu_s3 provisioned sim_s3_cfg provisioned
        "[(''Buckets'', ?bs)]" provisioned ?bs bucket_exists_error provisioned
        emu_blob provisioned connection_string provisioned "''test-container''" provisioned
        container_exists_error provisioned] s3 az
    by (simp_all add: error_simps)
  have c: "sim_create_s3_bucket emu_s3_create_fails fresh =
       (Inr (),
        [Printed s3_header, Called (Boto3_client sim_s3_cfg) None, Called List_buckets None,
         Printed (buckets_line ''[]''), Called (Create_bucket ''test-bucket'') (Some endpoint_error),
         Printed (s3_error_line endpoint_error)], fresh)"
    and d: "create_azure_container emu_blob down =
      (Inr (),
       [Printed azure_header, Called (From_connection_string connection_string) None,
        Called (Get_container_client ''test-container'') None,
        Called Create_container (Some endpoint_error),
        Printed (azure_error_line endpoint_error)], down)"
    and d': "sim_create_azure_container emu_blob down = create_azure_container emu_blob down"
    using already_exists_is_informational [of emu_s3_create_fails fresh sim_s3_cfg fresh
        "[(''Buckets'', ''[]'')]" fresh "''[]''" endpoint_error fresh
        emu_blob down connection_string down "''test-container''" down
        endpoint_error down] s3' az'
    by (simp_all add: error_simps)
  from a b b' c d d' show ?thesis
    by (simp add: error_simps sim_s3_provisioned trace_def)
qed

subsection \<open>C3: An existing bucket in create\_resources.py\<close>

text \<open>
  Claim C3 holds of the richer script and not of \<^verbatim>\<open>create_resources.py\<close>: there
  \<open>create_s3_bucket\<close> has no already-exists test, so on an emulator that already holds
  \<open>test-bucket\<close> (as after a first run) it returns normally but prints the S3 error line where
  the richer script prints the informational line.
\<close>

theorem existing_bucket_printed_as_error:
  "''test-bucket'' \<in> set (buckets (world (create_s3_bucket emu_s3 fresh))) \<and>
   result (create_s3_bucket emu_s3 (world (create_s3_bucket emu_s3 fresh))) = Inr () \<and>
   raised (trace (create_s3_bucket emu_s3 (world (create_s3_bucket emu_s3 fresh))))
     = [bucket_exists_error] \<and>
   s3_already_exists bucket_exists_error \<and>
   printed (trace (create_s3_bucket emu_s3 (world (create_s3_bucket emu_s3 fresh))))
     = [s3_header, s3_error_line bucket_exists_error] \<and>
   s3_exists_line \<notin> set (printed (trace (create_s3_bucket emu_s3
     (world (create_s3_bucket emu_s3 fresh))))) \<and>
   printed (trace (create_s3_bucket emu_s3 provisioned))
     = [s3_header, s3_error_line bucket_exists_error] \<and>
   printed (trace (sim_create_s3_bucket emu_s3 provisioned))
     = [s3_header, buckets_line ([CHR ''['', CHR 0x27] @ ''test-bucket'' @ [CHR 0x27, CHR '']'']),
        s3_exists_line, s3_upload_line]"
proof -
  let ?w = "world (create_s3_bucket emu_s3 fresh)"
  have w: "?w = fresh\<lparr>buckets := [''test-bucket'']\<rparr>"
    by (simp add: s3_fresh world_def)
  have run: "create_s3_bucket emu_s3 ?w =
     (Inr (), [Printed s3_header, Called (Boto3_client s3_cfg) None,
        Called (Create_bucket ''test-bucket'') (Some bucket_exists_error),
        Printed (s3_error_line bucket_exists_error)], ?w)"
    unfolding w using bucket_exists_error_simps
    by (simp add: create_s3_bucket_def prog_defs emu_simps fresh_def)
  have neq: "s3_exists_line \<noteq> s3_header" "s3_exists_line \<noteq> s3_error_line bucket_exists_error"
    by (simp_all add: line_defs)
  have "''test-bucket'' \<in> set (buckets ?w)"
    unfolding w by simp
  then show ?thesis
    by (simp add: run s3_provisioned sim_s3_provisioned result_def trace_def error_simps neq)
qed

subsection \<open>C4: The uploaded object\<close>

text \<open>
  Claim C4. In the richer script, whenever \<open>create_s3_bucket\<close> returns without having taken
  its error path (no S3 error line was printed), the upload success line was printed and the
  service holds under key \<open>test_file_boto.txt\<close> of bucket \<open>test-bucket\<close> the body
  "Hello Boto3". The service is any S3 service whose \<open>put_object\<close>, when it returns, has
  stored the body it was given.
\<close>

theorem upload_stored_when_no_error:
  assumes "put_object_stores sdk stored"
    and "result (sim_create_s3_bucket sdk w) = Inr ()"
    and "\<not> s3_error_printed (trace (sim_create_s3_bucket sdk w))"
  shows "stored (world (sim_create_s3_bucket sdk w)) ''test-bucket'' ''test_file_boto.txt''
      = Some ''Hello Boto3'' \<and>
    s3_upload_line \<in> set (printed (trace (sim_create_s3_bucket sdk w)))"
proof -
  have quiet: "Printed (s3_error_line e) \<notin> set (trace (sim_create_s3_bucket sdk w))" for e
    using assms(3) s3_error_printedI by blast
  show ?thesis
  proof (cases rule: sim_s3_paths [of sdk w])
    case (client_raises e w1)
    with assms(2) quiet [of e] show ?thesis
      by (simp add: sim_s3_client_raises obs_defs split: if_splits)
  next
    case (list_raises c w1 e w2)
    with assms(2) quiet [of e] show ?thesis
      by (simp add: sim_s3_list_raises obs_defs split: if_splits)
  next
    case (no_key c w1 response w2)
    with quiet [of "PyExn True ([CHR 0x27] @ ''Buckets'' @ [CHR 0x27])"] show ?thesis
      by (simp add: sim_s3_no_buckets_key obs_defs)
  next
    case (create_raises c w1 response w2 bs e w3)
    with assms(2) quiet [of e] show ?thesis
      by (simp add: sim_s3_create_raises_other obs_defs split: if_splits)
  next
    case (put_raises c w1 response w2 bs r w3 e w4)
    note run = sim_s3_put_raises [OF put_raises]
    from assms(2) quiet [of e] show ?thesis
      by (simp add: run obs_defs split: if_splits)
  next
    case (uploaded c w1 response w2 bs r w3 u w4)
    note run = sim_s3_uploaded [OF uploaded]
    from assms(1) uploaded(6)
    have "stored w4 ''test-bucket'' ''test_file_boto.txt'' = Some ''Hello Boto3''"
      by (simp add: put_object_stores_def)
    then show ?thesis
      by (simp add: run obs_defs printed_append)
  qed
qed

theorem upload_stored_when_no_error_witness:
  "put_object_stores emu_s3 emu_stored \<and>
   result (sim_create_s3_bucket emu_s3 fresh) = Inr () \<and>
   \<not> s3_error_printed (trace (sim_create_s3_bucket emu_s3 fresh)) \<and>
   emu_stored (world (sim_create_s3_bucket emu_s3 fresh)) ''test-bucket'' ''test_file_boto.txt''
      = Some ''Hello Boto3'' \<and>
   s3_upload_line \<in> set (printed (trace (sim_create_s3_bucket emu_s3 fresh)))"
proof -
  have h: "put_object_stores emu_s3 emu_stored"
    "result (sim_create_s3_bucket emu_s3 fresh) = Inr ()"
    "\<not> s3_error_printed (trace (sim_create_s3_bucket emu_s3 fresh))"
    by (auto simp add: put_object_stores_def emu_simps emu_stored_def sim_s3_fresh obs_defs
        s3_error_printed_def line_defs split: if_splits)
  from upload_stored_when_no_error [OF h] h show ?thesis by simp
qed

subsection \<open>C5: Order of the calls and the one error line\<close>

text \<open>
  Claim C5, as stated, fails in its last part: the printed output tells an upload failure
  from a creation failure. With one and the same exception raised at the creation in one run
  and at the upload in another, the upload failure has the line that reports the bucket as
  created before its error line and the creation failure has not. With exceptions whose texts
  name the operation, the two error lines differ as well.
\<close>

theorem upload_failure_output_differs:
  "raised (trace (sim_create_s3_bucket emu_s3_create_fails fresh)) = [endpoint_error] \<and>
   raised (trace (sim_create_s3_bucket emu_s3_put_fails fresh)) = [endpoint_error] \<and>
   printed (trace (sim_create_s3_bucket emu_s3_create_fails fresh)) =
     [s3_header, buckets_line ''[]'', s3_error_line endpoint_error] \<and>
   printed (trace (sim_create_s3_bucket emu_s3_put_fails fresh)) =
     [s3_header, buckets_line ''[]'', s3_created_line, s3_error_line endpoint_error] \<and>
   printed (trace (sim_create_s3_bucket emu_s3_put_fails fresh)) \<noteq>
     printed (trace (sim_create_s3_bucket emu_s3_create_fails fresh)) \<and>
   raised (trace (sim_create_s3_bucket emu_s3_create_denied fresh)) = [create_denied_error] \<and>
   raised (trace (sim_create_s3_bucket emu_s3_put_denied fresh)) = [put_denied_error] \<and>
   printed (trace (sim_create_s3_bucket emu_s3_create_denied fresh)) =
     [s3_header, buckets_line ''[]'', s3_error_line create_denied_error] \<and>
   printed (trace (sim_create_s3_bucket emu_s3_put_denied fresh)) =
     [s3_header, buckets_line ''[]'', s3_created_line, s3_error_line put_denied_error] \<and>
   s3_error_line put_denied_error \<noteq> s3_error_line create_denied_error \<and>
   printed (trace (sim_create_s3_bucket emu_s3_put_denied fresh)) \<noteq>
     printed (trace (sim_create_s3_bucket emu_s3_create_denied fresh))"
  by (simp add: sim_s3_create_fails_fresh sim_s3_put_fails_fresh sim_s3_create_denied_fresh
      sim_s3_put_denied_fresh trace_def s3_error_line_eq_iff denied_error_simps)

text \<open>
  Claim C5, amended. In the richer script the SDK calls are made in the order: client, list
  buckets, create bucket, put object (a run makes an initial part of this sequence). An
  upload error is printed by the same single handler as a creation error that is not an
  already-exists error, in the same form: the last line of the run is "S3 Error: " followed
  by the text of the exception, and carries no mark of the step that failed. The printed
  output does tell an upload failure from a creation failure: the error line of an upload
  failure comes after the created or already-exists line, that of a creation failure right
  after the bucket listing, so the two outputs always differ; and the two error lines are
  equal exactly when the texts of the two exceptions are equal.
\<close>

theorem upload_and_creation_errors_share_error_line:
  "prefix (calls (trace (sim_create_s3_bucket sdk w)))
     [Boto3_client sim_s3_cfg, List_buckets, Create_bucket ''test-bucket'',
      Put_object ''test-bucket'' ''test_file_boto.txt'' ''Hello Boto3''] \<and>
   (boto3_client sdk sim_s3_cfg w = (Inr c, w1) \<and> list_buckets sdk c w1 = (Inr response, w2)
      \<and> map_of response ''Buckets'' = Some bs
      \<and> create_bucket sdk c ''test-bucket'' w2 = (Inl e, w3)
      \<and> is_Exception e \<and> \<not> s3_already_exists e \<longrightarrow>
    printed (trace (sim_create_s3_bucket sdk w)) = [s3_header, buckets_line bs, s3_error_line e]) \<and>
   (boto3_client up sim_s3_cfg v = (Inr d, v1) \<and> list_buckets up d v1 = (Inr listing, v2)
      \<and> map_of listing ''Buckets'' = Some cs
      \<and> create_bucket up d ''test-bucket'' v2 = (r, v3) \<and> ensure_ok r
      \<and> put_object up d ''test-bucket'' ''test_file_boto.txt'' ''Hello Boto3'' v3 = (Inl x, v4)
      \<and> is_Exception x \<longrightarrow>
    printed (trace (sim_create_s3_bucket up v)) =
      [s3_header, buckets_line cs,
       case r of Inr u \<Rightarrow> s3_created_line | Inl y \<Rightarrow> s3_exists_line,
       s3_error_line x]) \<and>
   (boto3_client sdk sim_s3_cfg w = (Inr c, w1) \<and> list_buckets sdk c w1 = (Inr response, w2)
      \<and> map_of response ''Buckets'' = Some bs
      \<and> create_bucket sdk c ''test-bucket'' w2 = (Inl e, w3)
      \<and> is_Exception e \<and> \<not> s3_already_exists e
      \<and> boto3_client up sim_s3_cfg v = (Inr d, v1) \<and> list_buckets up d v1 = (Inr listing, v2)
      \<and> map_of listing ''Buckets'' = Some cs
      \<and> create_bucket up d ''test-bucket'' v2 = (r, v3) \<and> ensure_ok r
      \<and> put_object up d ''test-bucket'' ''test_file_boto.txt'' ''Hello Boto3'' v3 = (Inl x, v4)
      \<and> is_Exception x \<longrightarrow>
    printed (trace (sim_create_s3_bucket up v)) \<noteq> printed (trace (sim_create_s3_bucket sdk w))
    \<and> (last (printed (trace (sim_create_s3_bucket up v)))
          = last (printed (trace (sim_create_s3_bucket sdk w)))
        \<longleftrightarrow> exn_str x = exn_str e)) \<and>
   (\<forall>a b. s3_error_line a = s3_error_line b \<longleftrightarrow> exn_str a = exn_str b)"
proof -
  have order: "prefix (calls (trace (sim_create_s3_bucket sdk w)))
     [Boto3_client sim_s3_cfg, List_buckets, Create_bucket ''test-bucket'',
      Put_object ''test-bucket'' ''test_file_boto.txt'' ''Hello Boto3'']"
  proof (cases rule: sim_s3_paths [of sdk w])
    case (client_raises e w1)
    then show ?thesis by (simp add: sim_s3_client_raises obs_defs)
  next
    case (list_raises c w1 e w2)
    then show ?thesis by (simp add: sim_s3_list_raises obs_defs)
  next
    case (no_key c w1 response w2)
    then show ?thesis by (simp add: sim_s3_no_buckets_key obs_defs)
  next
    case (create_raises c w1 response w2 bs e w3)
    then show ?thesis by (simp add: sim_s3_create_raises_other obs_defs)
  next
    case (put_raises c w1 response w2 bs r w3 e w4)
    have "calls (ensured bs r) = [Boto3_client sim_s3_cfg, List_buckets, Create_bucket ''test-bucket'']"
      by (simp add: ensured_def split: sum.splits)
    then show ?thesis
      by (simp add: sim_s3_put_raises [OF put_raises] obs_defs calls_append)
  next
    case (uploaded c w1 response w2 bs r w3 u w4)
    have "calls (ensured bs r) = [Boto3_client sim_s3_cfg, List_buckets, Create_bucket ''test-bucket'']"
      by (simp add: ensured_def split: sum.splits)
    then show ?thesis
      by (simp add: sim_s3_uploaded [OF uploaded] obs_defs calls_append)
  qed
  have creation: "printed (trace (sim_create_s3_bucket sdk w))
      = [s3_header, buckets_line bs, s3_error_line e]"
    if "boto3_client sdk sim_s3_cfg w = (Inr c, w1)" "list_buckets sdk c w1 = (Inr response, w2)"
      "map_of response ''Buckets'' = Some bs"
      "create_bucket sdk c ''test-bucket'' w2 = (Inl e, w3)"
      "is_Exception e" "\<not> s3_already_exists e"
    using that by (simp add: sim_s3_create_raises_other obs_defs)
  have upload: "printed (trace (sim_create_s3_bucket up v)) =
      [s3_header, buckets_line cs,
       case r of Inr u \<Rightarrow> s3_created_line | Inl y \<Rightarrow> s3_exists_line,
       s3_error_line x]"
    if h: "boto3_client up sim_s3_cfg v = (Inr d, v1)" "list_buckets up d v1 = (Inr listing, v2)"
      "map_of listing ''Buckets'' = Some cs"
      "create_bucket up d ''test-bucket'' v2 = (r, v3)" "ensure_ok r"
      "put_object up d ''test-bucket'' ''test_file_boto.txt'' ''Hello Boto3'' v3 = (Inl x, v4)"
      "is_Exception x"
  proof -
    have "printed (ensured cs r) =
        [s3_header, buckets_line cs, case r of Inr u \<Rightarrow> s3_created_line | Inl y \<Rightarrow> s3_exists_line]"
      by (simp add: ensured_def split: sum.splits)
    with h show ?thesis
      by (simp add: sim_s3_put_raises [where r = r] obs_defs printed_append)
  qed
  show ?thesis
  proof (intro conjI impI allI)
    show "prefix (calls (trace (sim_create_s3_bucket sdk w)))
       [Boto3_client sim_s3_cfg, List_buckets, Create_bucket ''test-bucket'',
        Put_object ''test-bucket'' ''test_file_boto.txt'' ''Hello Boto3'']"
      by (rule order)
  next
    assume "boto3_client sdk sim_s3_cfg w = (Inr c, w1) \<and> list_buckets sdk c w1 = (Inr response, w2)
      \<and> map_of response ''Buckets'' = Some bs
      \<and> create_bucket sdk c ''test-bucket'' w2 = (Inl e, w3)
      \<and> is_Exception e \<and> \<not> s3_already_exists e"
    then show "printed (trace (sim_create_s3_bucket sdk w))
        = [s3_header, buckets_line bs, s3_error_line e]"
      using creation by blast
  next
    assume "boto3_client up sim_s3_cfg v = (Inr d, v1) \<and> list_buckets up d v1 = (Inr listing, v2)
      \<and> map_of listing ''Buckets'' = Some cs
      \<and> create_bucket up d ''test-bucket'' v2 = (r, v3) \<and> ensure_ok r
      \<and> put_object up d ''test-bucket'' ''test_file_boto.txt'' ''Hello Boto3'' v3 = (Inl x, v4)
      \<and> is_Exception x"
    then show "printed (trace (sim_create_s3_bucket up v)) =
        [s3_header, buckets_line cs,
         case r of Inr u \<Rightarrow> s3_created_line | Inl y \<Rightarrow> s3_exists_line,
         s3_error_line x]"
      using upload by blast
  next
    assume both: "boto3_client sdk sim_s3_cfg w = (Inr c, w1) \<and> list_buckets sdk c w1 = (Inr response, w2)
      \<and> map_of response ''Buckets'' = Some bs
      \<and> create_bucket sdk c ''test-bucket'' w2 = (Inl e, w3)
      \<and> is_Exception e \<and> \<not> s3_already_exists e
      \<and> boto3_client up sim_s3_cfg v = (Inr d, v1) \<and> list_buckets up d v1 = (Inr listing, v2)
      \<and> map_of listing ''Buckets'' = Some cs
      \<and> create_bucket up d ''test-bucket'' v2 = (r, v3) \<and> ensure_ok r
      \<and> put_object up d ''test-bucket'' ''test_file_boto.txt'' ''Hello Boto3'' v3 = (Inl x, v4)
      \<and> is_Exception x"
    then have p: "printed (trace (sim_create_s3_bucket sdk w))
        = [s3_header, buckets_line bs, s3_error_line e]"
      and q: "printed (trace (sim_create_s3_bucket up v)) =
        [s3_header, buckets_line cs,
         case r of Inr u \<Rightarrow> s3_created_line | Inl y \<Rightarrow> s3_exists_line,
         s3_error_line x]"
      using creation upload by blast+
    show "printed (trace (sim_create_s3_bucket up v)) \<noteq> printed (trace (sim_create_s3_bucket sdk w))"
      by (simp add: p q)
    show "last (printed (trace (sim_create_s3_bucket up v)))
          = last (printed (trace (sim_create_s3_bucket sdk w)))
        \<longleftrightarrow> exn_str x = exn_str e"
      by (simp add: p q s3_error_line_eq_iff)
  next
    fix a b
    show "s3_error_line a = s3_error_line b \<longleftrightarrow> exn_str a = exn_str b"
      by (rule s3_error_line_eq_iff)
  qed
qed

text \<open>
  On the emulator: the same exception at the creation and at the upload gives the same error
  line after different lines; exceptions that name the operation give different error lines.
\<close>

theorem upload_and_creation_errors_share_error_line_witness:
  "create_bucket emu_s3_create_fails sim_s3_cfg ''test-bucket'' fresh = (Inl endpoint_error, fresh) \<and>
   is_Exception endpoint_error \<and> \<not> s3_already_exists endpoint_error \<and>
   printed (trace (sim_create_s3_bucket emu_s3_create_fails fresh)) =
     [s3_header, buckets_line ''[]'', s3_error_line endpoint_error] \<and>
   create_bucket emu_s3_put_fails sim_s3_cfg ''test-bucket'' fresh
     = (Inr (), fresh\<lparr>buckets := [''test-bucket'']\<rparr>) \<and>
   ensure_ok (Inr ()) \<and>
   put_object emu_s3_put_fails sim_s3_cfg ''test-bucket'' ''test_file_boto.txt'' ''Hello Boto3''
     (fresh\<lparr>buckets := [''test-bucket'']\<rparr>)
     = (Inl endpoint_error, fresh\<lparr>buckets := [''test-bucket'']\<rparr>) \<and>
   printed (trace (sim_create_s3_bucket emu_s3_put_fails fresh)) =
     [s3_header, buckets_line ''[]'', s3_created_line, s3_error_line endpoint_error] \<and>
   prefix (calls (trace (sim_create_s3_bucket emu_s3_put_fails fresh)))
     [Boto3_client sim_s3_cfg, List_buckets, Create_bucket ''test-bucket'',
      Put_object ''test-bucket'' ''test_file_boto.txt'' ''Hello Boto3''] \<and>
   printed (trace (sim_create_s3_bucket emu_s3_put_fails fresh)) \<noteq>
     printed (trace (sim_create_s3_bucket emu_s3_create_fails fresh)) \<and>
   last (printed (trace (sim_create_s3_bucket emu_s3_put_fails fresh))) =
     last (printed (trace (sim_create_s3_bucket emu_s3_create_fails fresh))) \<and>
   create_bucket emu_s3_create_denied sim_s3_cfg ''test-bucket'' fresh
     = (Inl create_denied_error, fresh) \<and>
   is_Exception create_denied_error \<and> \<not> s3_already_exists create_denied_error \<and>
   put_object emu_s3_put_denied sim_s3_cfg ''test-bucket'' ''test_file_boto.txt'' ''Hello Boto3''
     (fresh\<lparr>buckets := [''test-bucket'']\<rparr>)
     = (Inl put_denied_error, fresh\<lparr>buckets := [''test-bucket'']\<rparr>) \<and>
   is_Exception put_denied_error \<and>
   exn_str put_denied_error \<noteq> exn_str create_denied_error \<and>
   printed (trace (sim_create_s3_bucket emu_s3_create_denied fresh)) =
     [s3_header, buckets_line ''[]'', s3_error_line create_denied_error] \<and>
   printed (trace (sim_create_s3_bucket emu_s3_put_denied fresh)) =
     [s3_header, buckets_line ''[]'', s3_created_line, s3_error_line put_denied_error] \<and>
   printed (trace (sim_create_s3_bucket emu_s3_put_denied fresh)) \<noteq>
     printed (trace (sim_create_s3_bucket emu_s3_create_denied fresh)) \<and>
   last (printed (trace (sim_create_s3_bucket emu_s3_put_denied fresh))) \<noteq>
     last (printed (trace (sim_create_s3_bucket emu_s3_create_denied fresh)))"
proof -
  let ?w = "fresh\<lparr>buckets := [''test-bucket'']\<rparr>"
  have a: "boto3_client emu_s3_create_fails sim_s3_cfg fresh = (Inr sim_s3_cfg, fresh)
      \<and> list_buckets emu_s3_create_fails sim_s3_cfg fresh = (Inr [(''Buckets'', ''[]'')], fresh)
      \<and> map_of [(''Buckets'', ''[]'')] ''Buckets'' = Some ''[]''
      \<and> create_bucket emu_s3_create_fails sim_s3_cfg ''test-bucket'' fresh
          = (Inl endpoint_error, fresh)
      \<and> is_Exception endpoint_error \<and> \<not> s3_already_exists endpoint_error"
    by (simp add: emu_simps fresh_def error_simps)
  have b: "boto3_client emu_s3_put_fails sim_s3_cfg fresh = (Inr sim_s3_cfg, fresh)
      \<and> list_buckets emu_s3_put_fails sim_s3_cfg fresh = (Inr [(''Buckets'', ''[]'')], fresh)
      \<and> map_of [(''Buckets'', ''[]'')] ''Buckets'' = Some ''[]''
      \<and> create_bucket emu_s3_put_fails sim_s3_cfg ''test-bucket'' fresh = (Inr (), ?w)
      \<and> ensure_ok (Inr ())
      \<and> put_object emu_s3_put_fails sim_s3_cfg ''test-bucket'' ''test_file_boto.txt''
          ''Hello Boto3'' ?w = (Inl endpoint_error, ?w)
      \<and> is_Exception endpoint_error"
    by (simp add: emu_simps fresh_def error_simps ensure_ok_def)
  have a': "boto3_client emu_s3_create_denied sim_s3_cfg fresh = (Inr sim_s3_cfg, fresh)
      \<and> list_buckets emu_s3_create_denied sim_s3_cfg fresh = (Inr [(''Buckets'', ''[]'')], fresh)
      \<and> map_of [(''Buckets'', ''[]'')] ''Buckets'' = Some ''[]''
      \<and> create_bucket emu_s3_create_denied sim_s3_cfg ''test-bucket'' fresh
          = (Inl create_denied_error, fresh)
      \<and> is_Exception create_denied_error \<and> \<not> s3_already_exists create_denied_error"
    by (simp add: emu_s3_create_denied_simps emu_simps fresh_def denied_error_simps)
  have b': "boto3_client emu_s3_put_denied sim_s3_cfg fresh = (Inr sim_s3_cfg, fresh)
      \<and> list_buckets emu_s3_put_denied sim_s3_cfg fresh = (Inr [(''Buckets'', ''[]'')], fresh)
      \<and> map_of [(''Buckets'', ''[]'')] ''Buckets'' = Some ''[]''
      \<and> create_bucket emu_s3_put_denied sim_s3_cfg ''test-bucket'' fresh = (Inr (), ?w)
      \<and> ensure_ok (Inr ())
      \<and> put_object emu_s3_put_denied sim_s3_cfg ''test-bucket'' ''test_file_boto.txt''
          ''Hello Boto3'' ?w = (Inl put_denied_error, ?w)
      \<and> is_Exception put_denied_error"
    by (simp add: emu_s3_put_denied_simps emu_simps fresh_def denied_error_simps ensure_ok_def)
  note same = upload_and_creation_errors_share_error_line [where sdk = emu_s3_create_fails
      and w = fresh and c = sim_s3_cfg and ?w1.0 = fresh and response = "[(''Buckets'', ''[]'')]"
      and ?w2.0 = fresh and bs = "''[]''" and e = endpoint_error and ?w3.0 = fresh
      and up = emu_s3_put_fails and v = fresh and d = sim_s3_cfg and ?v1.0 = fresh
      and listing = "[(''Buckets'', ''[]'')]" and ?v2.0 = fresh and cs = "''[]''"
      and r = "Inr ()" and ?v3.0 = ?w and x = endpoint_error and ?v4.0 = ?w]
  note named = upload_and_creation_errors_share_error_line [where sdk = emu_s3_create_denied
      and w = fresh and c = sim_s3_cfg and ?w1.0 = fresh and response = "[(''Buckets'', ''[]'')]"
      and ?w2.0 = fresh and bs = "''[]''" and e = create_denied_error and ?w3.0 = fresh
      and up = emu_s3_put_denied and v = fresh and d = sim_s3_cfg and ?v1.0 = fresh
      and listing = "[(''Buckets'', ''[]'')]" and ?v2.0 = fresh and cs = "''[]''"
      and r = "Inr ()" and ?v3.0 = ?w and x = put_denied_error and ?v4.0 = ?w]
  have order: "prefix (calls (trace (sim_create_s3_bucket emu_s3_put_fails fresh)))
     [Boto3_client sim_s3_cfg, List_buckets, Create_bucket ''test-bucket'',
      Put_object ''test-bucket'' ''test_file_boto.txt'' ''Hello Boto3'']"
    by (rule upload_and_creation_errors_share_error_line
        [where sdk = emu_s3_put_fails and w = fresh, THEN conjunct1])
  from same named a b a' b' order show ?thesis
    by (simp add: denied_error_simps)
qed

subsection \<open>C6: The two handlers of the container provisioner\<close>

text \<open>
  Claim C6. In \<open>create_azure_container\<close> (both scripts) a failure to obtain the blob-service
  handle or the container handle is caught by the outer handler and printed as
  "Azure Script Error", while a container-creation failure is caught by the inner handler and
  printed as "Azure Error"; no line of the one kind is a line of the other.
\<close>

theorem handle_failures_reported_apart:
  "(from_connection_string az connection_string w = (Inl e, w1) \<and> is_Exception e \<longrightarrow>
      create_azure_container az w =
        (Inr (),
         [Printed azure_header, Called (From_connection_string connection_string) (Some e),
          Printed (azure_script_error_line e)], w1)) \<and>
   (from_connection_string az connection_string w = (Inr s, w1)
      \<and> get_container_client az s ''test-container'' w1 = (Inl e, w2) \<and> is_Exception e \<longrightarrow>
      create_azure_container az w =
        (Inr (),
         [Printed azure_header, Called (From_connection_string connection_string) None,
          Called (Get_container_client ''test-container'') (Some e),
          Printed (azure_script_error_line e)], w2)) \<and>
   (from_connection_string az connection_string w = (Inr s, w1)
      \<and> get_container_client az s ''test-container'' w1 = (Inr k, w2)
      \<and> create_container az k w2 = (Inl e, w3) \<and> is_Exception e
      \<and> \<not> azure_already_exists e \<longrightarrow>
      create_azure_container az w =
        (Inr (),
         [Printed azure_header, Called (From_connection_string connection_string) None,
          Called (Get_container_client ''test-container'') None,
          Called Create_container (Some e), Printed (azure_error_line e)], w3)) \<and>
   sim_create_azure_container az w = create_azure_container az w \<and>
   (\<forall>a b. azure_script_error_line a \<noteq> azure_error_line b)"
  by (simp add: azure_from_raises azure_get_raises azure_create_raises sim_azure_same
      azure_script_error_line_def azure_error_line_def glyph_err_def)

theorem handle_failures_reported_apart_witness:
  "from_connection_string emu_blob_malformed connection_string fresh = (Inl malformed_error, fresh) \<and>
   is_Exception malformed_error \<and>
   printed (trace (create_azure_container emu_blob_malformed fresh)) =
     [azure_header, azure_script_error_line malformed_error] \<and>
   get_container_client emu_blob_no_container_client connection_string ''test-container'' fresh
     = (Inl malformed_error, fresh) \<and>
   printed (trace (sim_create_azure_container emu_blob_no_container_client fresh)) =
     [azure_header, azure_script_error_line malformed_error] \<and>
   create_container emu_blob ''test-container'' down = (Inl endpoint_error, down) \<and>
   is_Exception endpoint_error \<and> \<not> azure_already_exists endpoint_error \<and>
   printed (trace (create_azure_container emu_blob down)) =
     [azure_header, azure_error_line endpoint_error] \<and>
   azure_script_error_line malformed_error \<noteq> azure_error_line malformed_error"
proof -
  have h1: "from_connection_string emu_blob_malformed connection_string fresh
      = (Inl malformed_error, fresh)"
    and h2: "from_connection_string emu_blob_no_container_client connection_string fresh
      = (Inr connection_string, fresh)"
      "get_container_client emu_blob_no_container_client connection_string ''test-container'' fresh
      = (Inl malformed_error, fresh)"
    and h3: "from_connection_string emu_blob connection_string down = (Inr connection_string, down)"
      "get_container_client emu_blob connection_string ''test-container'' down
        = (Inr ''test-container'', down)"
      "create_container emu_blob ''test-container'' down = (Inl endpoint_error, down)"
    by (simp_all add: emu_simps down_def)
  from handle_failures_reported_apart [of emu_blob_malformed fresh malformed_error fresh]
    handle_failures_reported_apart [of emu_blob_no_container_client fresh malformed_error fresh
      connection_string fresh]
    handle_failures_reported_apart [of emu_blob down endpoint_error down connection_string down
      "''test-container''" down]
    h1 h2 h3
  show ?thesis
    by (simp add: error_simps obs_defs)
qed

subsection \<open>C7: The S3 step, then the Azure step\<close>

text \<open>
  Claim C7. Run as a script, \<open>create_s3_bucket\<close> runs to completion before
  \<open>create_azure_container\<close> begins, and the Azure step executes whatever the outcome of the S3
  step was: when the S3 step's SDK errors are \<^verbatim>\<open>Exception\<close>s, the run of \<open>main\<close> is the
  events of the S3 step followed by those of \<open>create_azure_container\<close> started in the world
  the S3 step left, and its result is that of the Azure step. Nothing else of the S3 step,
  success or failure, reaches the Azure step.
\<close>

theorem s3_step_then_azure_step:
  "(sdk_raised_Exceptions (trace (create_s3_bucket sdk w)) \<longrightarrow>
      main sdk az w =
        (result (create_azure_container az (world (create_s3_bucket sdk w))),
         trace (create_s3_bucket sdk w)
           @ trace (create_azure_container az (world (create_s3_bucket sdk w))),
         world (create_azure_container az (world (create_s3_bucket sdk w))))) \<and>
   (sdk_raised_Exceptions (trace (sim_create_s3_bucket sdk w)) \<longrightarrow>
      sim_main sdk az w =
        (result (sim_create_azure_container az (world (sim_create_s3_bucket sdk w))),
         trace (sim_create_s3_bucket sdk w)
           @ trace (sim_create_azure_container az (world (sim_create_s3_bucket sdk w))),
         world (sim_create_azure_container az (world (sim_create_s3_bucket sdk w)))))"
proof (intro conjI impI)
  assume "sdk_raised_Exceptions (trace (create_s3_bucket sdk w))"
  then have "result (create_s3_bucket sdk w) = Inr ()"
    by (simp add: s3_swallows)
  then show "main sdk az w =
        (result (create_azure_container az (world (create_s3_bucket sdk w))),
         trace (create_s3_bucket sdk w)
           @ trace (create_azure_container az (world (create_s3_bucket sdk w))),
         world (create_azure_container az (world (create_s3_bucket sdk w))))"
    unfolding main_def by (rule then_do_returns)
next
  assume "sdk_raised_Exceptions (trace (sim_create_s3_bucket sdk w))"
  then have "result (sim_create_s3_bucket sdk w) = Inr ()"
    by (simp add: sim_s3_swallows)
  then show "sim_main sdk az w =
        (result (sim_create_azure_container az (world (sim_create_s3_bucket sdk w))),
         trace (sim_create_s3_bucket sdk w)
           @ trace (sim_create_azure_container az (world (sim_create_s3_bucket sdk w))),
         world (sim_create_azure_container az (world (sim_create_s3_bucket sdk w))))"
    unfolding sim_main_def by (rule then_do_returns)
qed

text \<open>
  With the S3 endpoint down and with it up, the Azure step prints the same lines after the
  S3 step's.
\<close>

theorem s3_step_then_azure_step_witness:
  "sdk_raised_Exceptions (trace (create_s3_bucket emu_s3 (fresh\<lparr>s3_up := False\<rparr>))) \<and>
   printed (trace (main emu_s3 emu_blob (fresh\<lparr>s3_up := False\<rparr>))) =
     [s3_header, s3_error_line endpoint_error, azure_header, azure_created_line] \<and>
   sdk_raised_Exceptions (trace (sim_create_s3_bucket emu_s3 (fresh\<lparr>s3_up := False\<rparr>))) \<and>
   printed (trace (sim_main emu_s3 emu_blob (fresh\<lparr>s3_up := False\<rparr>))) =
     [s3_header, s3_error_line endpoint_error, azure_header, azure_created_line] \<and>
   sdk_raised_Exceptions (trace (create_s3_bucket emu_s3 fresh)) \<and>
   printed (trace (main emu_s3 emu_blob fresh)) =
     [s3_header, s3_created_line, azure_header, azure_created_line] \<and>
   sdk_raised_Exceptions (trace (sim_create_s3_bucket emu_s3 fresh)) \<and>
   printed (trace (sim_main emu_s3 emu_blob fresh)) =
     [s3_header, buckets_line ''[]'', s3_created_line, s3_upload_line,
      azure_header, azure_created_line]"
proof -
  let ?d = "fresh\<lparr>s3_up := False\<rparr>"
  have s3: "create_s3_bucket emu_s3 ?d =
     (Inr (), [Printed s3_header, Called (Boto3_client s3_cfg) None,
        Called (Create_bucket ''test-bucket'') (Some endpoint_error),
        Printed (s3_error_line endpoint_error)], ?d)"
    using endpoint_error_simps
    by (simp add: create_s3_bucket_def prog_defs emu_simps fresh_def)
  have sim: "sim_create_s3_bucket emu_s3 ?d =
     (Inr (), [Printed s3_header, Called (Boto3_client sim_s3_cfg) None,
        Called List_buckets (Some endpoint_error),
        Printed (s3_error_line endpoint_error)], ?d)"
    using endpoint_error_simps
    by (simp add: sim_create_s3_bucket_def prog_defs emu_simps fresh_def)
  have az: "create_azure_container emu_blob w =
     (Inr (), [Printed azure_header, Called (From_connection_string connection_string) None,
        Called (Get_container_client ''test-container'') None,
        Called Create_container None, Printed azure_created_line],
      w\<lparr>containers := [''test-container'']\<rparr>)"
    if "blob_up w" "containers w = []" for w
    using that by (simp add: create_azure_container_def prog_defs emu_simps)
  have azs: "blob_up ?d \<and> containers ?d = []"
    "blob_up (fresh\<lparr>buckets := [''test-bucket'']\<rparr>)
      \<and> containers (fresh\<lparr>buckets := [''test-bucket'']\<rparr>) = []"
    "blob_up (fresh\<lparr>buckets := [''test-bucket''],
        objects := [((''test-bucket'', ''test_file_boto.txt''), ''Hello Boto3'')]\<rparr>)
      \<and> containers (fresh\<lparr>buckets := [''test-bucket''],
        objects := [((''test-bucket'', ''test_file_boto.txt''), ''Hello Boto3'')]\<rparr>) = []"
    by (simp_all add: fresh_def)
  have hyps:
    "sdk_raised_Exceptions (trace (create_s3_bucket emu_s3 ?d))"
    "sdk_raised_Exceptions (trace (sim_create_s3_bucket emu_s3 ?d))"
    "sdk_raised_Exceptions (trace (create_s3_bucket emu_s3 fresh))"
    "sdk_raised_Exceptions (trace (sim_create_s3_bucket emu_s3 fresh))"
    by (simp_all add: s3 sim s3_fresh sim_s3_fresh trace_def sdk_raised_Exceptions_def
        endpoint_error_simps)
  show ?thesis
    using s3_step_then_azure_step [of emu_s3 ?d emu_blob]
      s3_step_then_azure_step [of emu_s3 fresh emu_blob] hyps
    by (simp add: s3 sim s3_fresh sim_s3_fresh sim_azure_same az azs obs_defs)
qed

subsection \<open>C8: A failed listing ends the run\<close>

text \<open>
  Claim C8. In the richer script, when the initial \<open>list_buckets\<close> call raises, neither
  \<open>create_bucket\<close> nor \<open>put_object\<close> is attempted: the client construction and the listing
  are the only SDK calls, the header and one S3 error line are the only output, the function
  returns, and the world is as the failed listing left it.
\<close>

theorem list_failure_ends_run:
  assumes "boto3_client sdk sim_s3_cfg w = (Inr c, w1)"
    and "list_buckets sdk c w1 = (Inl e, w2)"
    and "is_Exception e"
  shows "result (sim_create_s3_bucket sdk w) = Inr () \<and>
    calls (trace (sim_create_s3_bucket sdk w)) = [Boto3_client sim_s3_cfg, List_buckets] \<and>
    printed (trace (sim_create_s3_bucket sdk w)) = [s3_header, s3_error_line e] \<and>
    world (sim_create_s3_bucket sdk w) = w2"
  using assms by (simp add: sim_s3_list_raises obs_defs)

theorem list_failure_ends_run_witness:
  "boto3_client emu_s3 sim_s3_cfg down = (Inr sim_s3_cfg, down) \<and>
   list_buckets emu_s3 sim_s3_cfg down = (Inl endpoint_error, down) \<and>
   is_Exception endpoint_error \<and>
   result (sim_create_s3_bucket emu_s3 down) = Inr () \<and>
   calls (trace (sim_create_s3_bucket emu_s3 down)) = [Boto3_client sim_s3_cfg, List_buckets] \<and>
   printed (trace (sim_create_s3_bucket emu_s3 down)) = [s3_header, s3_error_line endpoint_error] \<and>
   world (sim_create_s3_bucket emu_s3 down) = down"
proof -
  have h: "boto3_client emu_s3 sim_s3_cfg down = (Inr sim_s3_cfg, down)"
    "list_buckets emu_s3 sim_s3_cfg down = (Inl endpoint_error, down)"
    "is_Exception endpoint_error"
    by (simp_all add: emu_simps down_def endpoint_error_simps)
  from list_failure_ends_run [OF h] h show ?thesis by simp
qed

subsection \<open>C9: The upload is attempted on every ensured run\<close>

text \<open>
  Claim C9. In the richer script \<open>put_object\<close> is attempted on every run whose ensure-bucket
  step succeeds, whether \<open>create_bucket\<close> returned or raised an already-exists error: the four
  SDK calls are made in order and the run ends in the world the upload call left. This holds
  from every starting world, so also from the one a previous run left: a rerun uploads
  \<open>test_file_boto.txt\<close> again.
\<close>

theorem upload_attempted_when_bucket_ensured:
  assumes "boto3_client sdk sim_s3_cfg w = (Inr c, w1)"
    and "list_buckets sdk c w1 = (Inr response, w2)"
    and "map_of response ''Buckets'' = Some bs"
    and "create_bucket sdk c ''test-bucket'' w2 = (r, w3)"
    and "ensure_ok r"
  shows "calls (trace (sim_create_s3_bucket sdk w)) =
      [Boto3_client sim_s3_cfg, List_buckets, Create_bucket ''test-bucket'',
       Put_object ''test-bucket'' ''test_file_boto.txt'' ''Hello Boto3''] \<and>
    world (sim_create_s3_bucket sdk w) =
      snd (put_object sdk c ''test-bucket'' ''test_file_boto.txt'' ''Hello Boto3'' w3)"
proof -
  obtain r4 w4 where put:
    "put_object sdk c ''test-bucket'' ''test_file_boto.txt'' ''Hello Boto3'' w3 = (r4, w4)"
    by (cases "put_object sdk c ''test-bucket'' ''test_file_boto.txt'' ''Hello Boto3'' w3")
  have pre: "calls (ensured bs r) = [Boto3_client sim_s3_cfg, List_buckets, Create_bucket ''test-bucket'']"
    by (simp add: ensured_def split: sum.splits)
  show ?thesis
  proof (cases r4)
    case (Inl e)
    with assms put pre show ?thesis
      by (simp add: sim_s3_put_raises obs_defs calls_append)
  next
    case (Inr u)
    with assms put pre show ?thesis
      by (simp add: sim_s3_uploaded obs_defs calls_append)
  qed
qed

text \<open>A second run on the emulator, started where the first run from \<open>fresh\<close> ended.\<close>

theorem upload_attempted_when_bucket_ensured_witness:
  "create_bucket emu_s3 sim_s3_cfg ''test-bucket'' (world (sim_create_s3_bucket emu_s3 fresh))
     = (Inl bucket_exists_error, world (sim_create_s3_bucket emu_s3 fresh)) \<and>
   ensure_ok (Inl bucket_exists_error) \<and>
   calls (trace (sim_create_s3_bucket emu_s3 (world (sim_create_s3_bucket emu_s3 fresh)))) =
     [Boto3_client sim_s3_cfg, List_buckets, Create_bucket ''test-bucket'',
      Put_object ''test-bucket'' ''test_file_boto.txt'' ''Hello Boto3''] \<and>
   objects (world (sim_create_s3_bucket emu_s3 (world (sim_create_s3_bucket emu_s3 fresh)))) =
     [((''test-bucket'', ''test_file_boto.txt''), ''Hello Boto3''),
      ((''test-bucket'', ''test_file_boto.txt''), ''Hello Boto3'')]"
proof -
  let ?w = "world (sim_create_s3_bucket emu_s3 fresh)"
  let ?bs = "[CHR ''['', CHR 0x27] @ ''test-bucket'' @ [CHR 0x27, CHR '']'']"
  have w: "?w = fresh\<lparr>buckets := [''test-bucket''],
        objects := [((''test-bucket'', ''test_file_boto.txt''), ''Hello Boto3'')]\<rparr>"
    by (simp add: sim_s3_fresh world_def)
  have h: "boto3_client emu_s3 sim_s3_cfg ?w = (Inr sim_s3_cfg, ?w)"
    "list_buckets emu_s3 sim_s3_cfg ?w = (Inr [(''Buckets'', ?bs)], ?w)"
    "map_of [(''Buckets'', ?bs)] ''Buckets'' = Some ?bs"
    "create_bucket emu_s3 sim_s3_cfg ''test-bucket'' ?w = (Inl bucket_exists_error, ?w)"
    "ensure_ok (Inl bucket_exists_error)"
    unfolding w by (simp_all add: emu_simps fresh_def ensure_ok_def error_simps)
  have put: "snd (put_object emu_s3 sim_s3_cfg ''test-bucket'' ''test_file_boto.txt''
      ''Hello Boto3'' ?w) =
      ?w\<lparr>objects := ((''test-bucket'', ''test_file_boto.txt''), ''Hello Boto3'') # objects ?w\<rparr>"
    unfolding w by (simp add: emu_simps fresh_def)
  have obj: "objects ?w = [((''test-bucket'', ''test_file_boto.txt''), ''Hello Boto3'')]"
    unfolding w by simp
  from upload_attempted_when_bucket_ensured [OF h] h(4,5) show ?thesis
    by (simp add: put obj)
qed

subsection \<open>C10: The header comes first\<close>

text \<open>
  Claim C10. Every invocation of each provisioner prints its fixed header line
  ("Creating S3 bucket..." or "Creating Azure container...") as the first event of the run:
  before any SDK call is attempted and whatever the outcome.
\<close>

theorem header_printed_first:
  "(\<exists>t. trace (create_s3_bucket sdk w) = Printed s3_header # t) \<and>
   (\<exists>t. trace (sim_create_s3_bucket sdk w) = Printed s3_header # t) \<and>
   (\<exists>t. trace (create_azure_container az v) = Printed azure_header # t) \<and>
   (\<exists>t. trace (sim_create_azure_container az v) = Printed azure_header # t)"
  using s3_header_first [of sdk w] sim_s3_header_first [of sdk w] azure_header_first [of az v]
  by (simp add: sim_azure_same)

end
